theory Spec2Isabelle
  imports Main "HOL-Library.Multiset"
begin

section \<open>Strings of the Python runtime\<close>

text \<open>
  The program is \<^verbatim>\<open>src/ytdl_pro.py\<close>. Its strings are modelled as \<^typ>\<open>string\<close>;
  a \<^typ>\<open>char\<close> stands for a code point below 256. \<open>isspace\<close> is Python's
  \<^verbatim>\<open>str.isspace\<close> on that range: the characters \<^verbatim>\<open>str.strip()\<close> removes.
\<close>

definition isspace :: "char \<Rightarrow> bool" where
  "isspace c =
     (let n = (of_char c :: nat)
      in (9 \<le> n \<and> n \<le> 13) \<or> (28 \<le> n \<and> n \<le> 32) \<or> n = 133 \<or> n = 160)"

definition strip :: "string \<Rightarrow> string" where
  "strip s = rev (dropWhile isspace (rev (dropWhile isspace s)))"

definition startswith_hash :: "string \<Rightarrow> bool" where
  "startswith_hash s = (case s of [] \<Rightarrow> False | c # _ \<Rightarrow> c = CHR ''#'')"

text \<open>
  Iterating over a text file yields its lines, each with its terminating newline
  (the last line may lack one).
\<close>

fun file_lines :: "string \<Rightarrow> string list" where
  "file_lines [] = []"
| "file_lines (c # cs) =
     (if c = CHR 0x0A then [c] # file_lines cs
      else (case file_lines cs of [] \<Rightarrow> [[c]] | l # ls \<Rightarrow> (c # l) # ls))"

text \<open>Decimal rendering of a number inside an f-string.\<close>

definition digit :: "nat \<Rightarrow> char" where
  "digit d = ''0123456789'' ! d"

function str_nat :: "nat \<Rightarrow> string" where
  "str_nat n = (if n < 10 then [digit n] else str_nat (n div 10) @ [digit (n mod 10)])"
  by pat_completeness auto
termination
  by (relation "measure id") auto

declare str_nat.simps [simp del]

definition str_int :: "int \<Rightarrow> string" where
  "str_int i = (if i < 0 then ''-'' @ str_nat (nat (- i)) else str_nat (nat i))"

text \<open>Truth value of an \<^verbatim>\<open>Optional[str]\<close>: \<^verbatim>\<open>None\<close> and the empty string are false.\<close>

definition truthy :: "string option \<Rightarrow> bool" where
  "truthy v = (case v of None \<Rightarrow> False | Some s \<Rightarrow> s \<noteq> [])"

text \<open>\<^verbatim>\<open>f"{v}"\<close> of an \<^verbatim>\<open>Optional[str]\<close>.\<close>

definition str_opt :: "string option \<Rightarrow> string" where
  "str_opt v = (case v of None \<Rightarrow> ''None'' | Some s \<Rightarrow> s)"

definition quoted :: "string \<Rightarrow> string" where
  "quoted s = [CHR 0x27] @ s @ [CHR 0x27]"

section \<open>Data of the downloader\<close>

text \<open>
  A worker receives \<^verbatim>\<open>(url, quality, output_dir, cookiefile, quiet_ydl)\<close> and returns
  \<^verbatim>\<open>(url, success, error_msg)\<close>. The options handed to the engine are a Python
  dict, modelled as an association list from keys to values.
\<close>

type_synonym args_tuple = "string \<times> string \<times> string \<times> string option \<times> bool"

type_synonym result = "string \<times> bool \<times> string option"

datatype pyval = Str string | Bool bool | List "pyval list" | Dict "(string \<times> pyval) list"

type_synonym ydl_opts = "(string \<times> pyval) list"

datatype level = DEBUG | INFO | WARNING | ERROR

text \<open>
  What the program does to the outside is recorded as a trace: calls of the logger
  (whatever the level in force), the call of \<^verbatim>\<open>os.makedirs\<close>, the construction of the
  pool with its size, and the hand-over of one request to the pool. The progress bar is
  not recorded. A worker runs in a process of its own and has a trace of its own.
\<close>

datatype event =
    is_Log: Log level string
  | is_Makedirs: Makedirs string
  | is_Pool: Pool int
  | is_Dispatch: Dispatch args_tuple

text \<open>
  The two handlers of the worker distinguish \<^verbatim>\<open>DownloadError\<close> from every other
  instance of \<^verbatim>\<open>Exception\<close>; the payload is \<^verbatim>\<open>str(e)\<close>. What can be raised at
  all is an instance of \<^verbatim>\<open>Exception\<close> or of another class below
  \<^verbatim>\<open>BaseException\<close> (\<^verbatim>\<open>KeyboardInterrupt\<close>, \<^verbatim>\<open>SystemExit\<close>, \<^verbatim>\<open>GeneratorExit\<close>), given
  by the name of its class.
\<close>

datatype exn = DownloadError string | OtherException string

datatype raised = Exception exn | BaseException string

text \<open>
  Opening and reading the URL file raises \<^verbatim>\<open>FileNotFoundError\<close>, raises another
  exception, or gives the text of the file as text mode decodes it (every line end a
  newline character).
\<close>

datatype read_outcome = FileNotFoundError | ReadError string | Content string

text \<open>
  The collaborators that are not part of the repository (the operating system, the
  identity generator, the download engine) are a parameter of every definition.
  \<open>os_makedirs\<close> answers \<open>None\<close> when the directory exists afterwards and
  \<open>Some msg\<close> when it raises \<^verbatim>\<open>OSError\<close>. \<open>ua\<close> is the module-level generator:
  \<open>None\<close> when its construction failed, otherwise what \<^verbatim>\<open>ua.random\<close> yields in the
  worker of the given URL. \<open>extract_info\<close> answers the value stored under \<^verbatim>\<open>'title'\<close>,
  if any; an engine answer without a usable dict raises inside the same handler scope and
  is one of its \<open>Inl\<close> answers. \<open>release\<close> is the end of the \<^verbatim>\<open>with\<close> block, which
  closes the session. The type \<open>'x\<close> is what the collaborators raise. In a \<open>world\<close>
  every call of a collaborator returns or raises an instance of \<^verbatim>\<open>Exception\<close>:
  \<^verbatim>\<open>main\<close> and the command line are modelled in a \<open>world\<close>, and
  \<^verbatim>\<open>KeyboardInterrupt\<close> is considered there where \<^verbatim>\<open>main\<close> handles it. The worker
  is modelled for collaborators that raise anything as well.
\<close>

record 'x collaborators =
  os_path_abspath :: "string \<Rightarrow> string"
  os_path_join :: "string \<Rightarrow> string \<Rightarrow> string"
  os_path_dirname :: "string \<Rightarrow> string"
  os_path_exists :: "string \<Rightarrow> bool"
  os_makedirs :: "string \<Rightarrow> string option"
  open_read :: "string \<Rightarrow> read_outcome"
  cpu_count :: int
  ua :: "(string \<Rightarrow> 'x + string) option"
  YoutubeDL :: "ydl_opts \<Rightarrow> 'x option"
  extract_info :: "ydl_opts \<Rightarrow> string \<Rightarrow> 'x + string option"
  download :: "ydl_opts \<Rightarrow> string \<Rightarrow> 'x option"
  release :: "ydl_opts \<Rightarrow> 'x option"
  format_exc :: "'x \<Rightarrow> string"

type_synonym world = "exn collaborators"

section \<open>The worker: \<^verbatim>\<open>download_video\<close>\<close>

definition POSTPROCESSOR_ARGS :: "(string \<times> pyval) list" where
  "POSTPROCESSOR_ARGS =
     [(''metadata'', List [Str ''-map'', Str ''0'', Str ''-map'', Str ''1'', Str ''-c'',
        Str ''copy'', Str ''-disposition:v:1'', Str ''attached_pic''])]"

definition user_agent_of :: "'x collaborators \<Rightarrow> string \<Rightarrow> 'x + string" where
  "user_agent_of w url = (case ua w of None \<Rightarrow> Inr ''Mozilla/5.0'' | Some gen \<Rightarrow> gen url)"

definition output_template_of :: "'x collaborators \<Rightarrow> string \<Rightarrow> string" where
  "output_template_of w output_dir =
     os_path_abspath w (os_path_join w output_dir ''%(title)s [%(id)s].%(ext)s'')"

definition format_selector :: "string \<Rightarrow> string" where
  "format_selector quality =
     ''bestvideo[height<='' @ quality @ ''][ext=mp4]+bestaudio[ext=m4a]/bestvideo[height<=''
       @ quality @ '']+bestaudio/best[height<='' @ quality @ '']''"

definition make_ydl_opts ::
  "'x collaborators \<Rightarrow> string \<Rightarrow> string \<Rightarrow> string \<Rightarrow> bool \<Rightarrow> ydl_opts" where
  "make_ydl_opts w user_agent quality output_dir quiet_ydl =
     [(''outtmpl'', Str (output_template_of w output_dir)),
      (''format'', Str (format_selector quality)),
      (''merge_output_format'', Str ''mp4''),
      (''nocheckcertificate'', Bool False),
      (''quiet'', Bool quiet_ydl),
      (''progress_hooks'', List []),
      (''http_headers'', Dict [(''User-Agent'', Str user_agent)]),
      (''postprocessors'', List [Dict [(''key'', Str ''FFmpegMetadata''), (''add_metadata'', Bool True)]]),
      (''writethumbnail'', Bool True),
      (''postprocessor_args'', Dict POSTPROCESSOR_ARGS)]"

definition add_cookiefile ::
  "'x collaborators \<Rightarrow> string \<Rightarrow> string option \<Rightarrow> ydl_opts \<Rightarrow> ydl_opts \<times> event list" where
  "add_cookiefile w url cookiefile opts =
     (case cookiefile of
        None \<Rightarrow> (opts, [])
      | Some c \<Rightarrow>
          if c \<noteq> [] \<and> os_path_exists w c
          then (opts @ [(''cookiefile'', Str c)],
                [Log DEBUG (''Using cookie file: '' @ c @ '' for '' @ url)])
          else if c \<noteq> []
          then (opts, [Log WARNING (''Cookie file specified but not found: '' @ c)])
          else (opts, []))"

text \<open>
  The first statements of the \<^verbatim>\<open>try\<close>, up to the cookie test: the identity string,
  the options dict and the log calls made, or the exception raised by \<^verbatim>\<open>ua.random\<close>.
\<close>

definition build_options ::
  "'x collaborators \<Rightarrow> string \<Rightarrow> string \<Rightarrow> string \<Rightarrow> string option \<Rightarrow> bool
     \<Rightarrow> 'x + (string \<times> ydl_opts \<times> event list)" where
  "build_options w url quality output_dir cookiefile quiet_ydl =
     (case user_agent_of w url of
        Inl e \<Rightarrow> Inl e
      | Inr user_agent \<Rightarrow>
          (case add_cookiefile w url cookiefile
                  (make_ydl_opts w user_agent quality output_dir quiet_ydl) of
             (opts, ev1) \<Rightarrow> Inr (user_agent, opts, ev1)))"

text \<open>
  The statements inside the \<^verbatim>\<open>with\<close> block: the log calls made, the value of
  \<^verbatim>\<open>video_title\<close> when the block is left, and the exception that leaves it (\<open>None\<close>:
  the \<^verbatim>\<open>return\<close> was reached).
\<close>

definition with_body ::
  "'x collaborators \<Rightarrow> ydl_opts \<Rightarrow> string \<Rightarrow> string \<Rightarrow> string
     \<Rightarrow> event list \<times> string \<times> 'x option" where
  "with_body w opts url user_agent output_dir =
     (let ev2 = [Log DEBUG (''Starting download: '' @ url @ '' with UA: '' @ user_agent)]
      in case extract_info w opts url of
           Inl e \<Rightarrow> (ev2, url, Some e)
         | Inr title \<Rightarrow>
             (let video_title = (case title of None \<Rightarrow> url | Some t \<Rightarrow> t);
                  ev3 = ev2 @ [Log INFO (''Downloading: '' @ quoted video_title
                          @ '' ('' @ url @ '') to ''
                          @ quoted (os_path_dirname w (output_template_of w output_dir)))]
              in case download w opts url of
                   Some e \<Rightarrow> (ev3, video_title, Some e)
                 | None \<Rightarrow>
                     (ev3 @ [Log INFO (''Finished: '' @ quoted video_title
                               @ '' ('' @ url @ '')'')],
                      video_title, None)))"

text \<open>
  The body of the \<^verbatim>\<open>try\<close>, with the same three components. Once the session is
  open, the \<^verbatim>\<open>with\<close> block is left through \<open>release\<close> on every path, also past the
  \<^verbatim>\<open>return\<close>; an exception raised there replaces whatever was leaving the block.
\<close>

definition try_body ::
  "'x collaborators \<Rightarrow> string \<Rightarrow> string \<Rightarrow> string \<Rightarrow> string option \<Rightarrow> bool
     \<Rightarrow> event list \<times> string \<times> 'x option" where
  "try_body w url quality output_dir cookiefile quiet_ydl =
     (case build_options w url quality output_dir cookiefile quiet_ydl of
        Inl e \<Rightarrow> ([], url, Some e)
      | Inr (user_agent, opts, ev1) \<Rightarrow>
          (case YoutubeDL w opts of
             Some e \<Rightarrow> (ev1, url, Some e)
           | None \<Rightarrow>
               (case with_body w opts url user_agent output_dir of
                  (ev, video_title, x) \<Rightarrow>
                    (ev1 @ ev, video_title,
                     (case release w opts of Some e \<Rightarrow> Some e | None \<Rightarrow> x)))))"

text \<open>
  The worker in a \<open>world\<close>: every exception that leaves the body is caught by one of
  the two handlers.
\<close>

fun download_video :: "world \<Rightarrow> args_tuple \<Rightarrow> event list \<times> result" where
  "download_video w (url, quality, output_dir, cookiefile, quiet_ydl) =
     (case try_body w url quality output_dir cookiefile quiet_ydl of
        (ev, video_title, None) \<Rightarrow> (ev, (url, True, None))
      | (ev, video_title, Some (DownloadError m)) \<Rightarrow>
          (ev @ [Log ERROR (''yt-dlp error downloading '' @ quoted video_title
                   @ '' ('' @ url @ ''): '' @ m)],
           (url, False, Some m))
      | (ev, video_title, Some (OtherException m)) \<Rightarrow>
          (ev @ [Log ERROR (''Unexpected error downloading '' @ quoted video_title
                   @ '' ('' @ url @ ''): '' @ m),
                 Log DEBUG (format_exc w (OtherException m))],
           (url, False, Some (''Unexpected error: '' @ m))))"

declare download_video.simps [simp del]

text \<open>
  The worker when its collaborators may raise anything: the same two handlers, and an
  exception that neither of them catches leaves the worker (\<open>Inl\<close>).
\<close>

fun download_video_raising ::
  "raised collaborators \<Rightarrow> args_tuple \<Rightarrow> event list \<times> (raised + result)" where
  "download_video_raising w (url, quality, output_dir, cookiefile, quiet_ydl) =
     (case try_body w url quality output_dir cookiefile quiet_ydl of
        (ev, video_title, None) \<Rightarrow> (ev, Inr (url, True, None))
      | (ev, video_title, Some (Exception (DownloadError m))) \<Rightarrow>
          (ev @ [Log ERROR (''yt-dlp error downloading '' @ quoted video_title
                   @ '' ('' @ url @ ''): '' @ m)],
           Inr (url, False, Some m))
      | (ev, video_title, Some (Exception (OtherException m))) \<Rightarrow>
          (ev @ [Log ERROR (''Unexpected error downloading '' @ quoted video_title
                   @ '' ('' @ url @ ''): '' @ m),
                 Log DEBUG (format_exc w (Exception (OtherException m)))],
           Inr (url, False, Some (''Unexpected error: '' @ m)))
      | (ev, video_title, Some (BaseException b)) \<Rightarrow> (ev, Inl (BaseException b)))"

declare download_video_raising.simps [simp del]

section \<open>The orchestrator: \<^verbatim>\<open>main\<close>\<close>

text \<open>
  \<^verbatim>\<open>imap_unordered\<close> yields the results in the order in which the workers finish.
  The order is decided outside the program: each number of the schedule picks, among the
  requests still pending, the one that finishes next; when the schedule is used up the
  rest finishes in submission order.
\<close>

fun completion_order :: "nat list \<Rightarrow> 'a list \<Rightarrow> 'a list" where
  "completion_order sched [] = []"
| "completion_order [] (x # xs) = x # xs"
| "completion_order (c # sched) (x # xs) =
     (let i = c mod length (x # xs)
      in (x # xs) ! i # completion_order sched (take i (x # xs) @ drop (Suc i) (x # xs)))"

definition imap_unordered :: "nat list \<Rightarrow> ('a \<Rightarrow> 'b) \<Rightarrow> 'a list \<Rightarrow> 'b list" where
  "imap_unordered sched f xs = completion_order sched (map f xs)"

text \<open>
  What happens inside the \<^verbatim>\<open>try\<close> of \<^verbatim>\<open>main\<close> is decided outside the program too:
  the pool delivers every result; or \<^verbatim>\<open>KeyboardInterrupt\<close> arrives while
  \<^verbatim>\<open>list(...)\<close> is still collecting, after the given number of results was produced;
  or it arrives in the counting loop, after the given number of results was counted; or
  the construction of the pool raises an \<^verbatim>\<open>Exception\<close>; or the collection does.
\<close>

datatype pool_behaviour =
    Completes "nat list"
  | KeyboardInterrupt_collecting "nat list" nat
  | KeyboardInterrupt_counting "nat list" nat
  | Exception_creating_pool string
  | Exception_collecting "nat list" nat string

record tally =
  success_count :: nat
  fail_count :: nat
  failed_urls :: "(string \<times> string option) list"

text \<open>
  \<open>Aborted\<close> is the \<^verbatim>\<open>return\<close> after \<^verbatim>\<open>os.makedirs\<close> failed. \<open>Summarized\<close> is the end
  through the \<^verbatim>\<open>finally\<close> block, with the value of \<^verbatim>\<open>results\<close> (\<open>None\<close> when the
  variable was never bound) and the counters.
\<close>

datatype main_end = Aborted | Summarized "result list option" tally

fun count_results :: "result list \<Rightarrow> tally \<Rightarrow> tally" where
  "count_results [] t = t"
| "count_results ((url, success, error_msg) # rs) t =
     count_results rs
       (if success then t\<lparr>success_count := success_count t + 1\<rparr>
        else t\<lparr>fail_count := fail_count t + 1,
               failed_urls := failed_urls t @ [(url, error_msg)]\<rparr>)"

definition summary_block :: "string \<Rightarrow> tally \<Rightarrow> event list" where
  "summary_block abs_output_dir t =
     [Log INFO ''--- Download Summary ---'',
      Log INFO (''Output directory: '' @ abs_output_dir),
      Log INFO (''Successfully downloaded: '' @ str_nat (success_count t) @ '' video(s)''),
      Log INFO (''Failed to download: '' @ str_nat (fail_count t) @ '' video(s)'')]
     @ (if failed_urls t \<noteq> []
        then Log WARNING ''Failed URLs:''
             # map (\<lambda>(url, reason).
                      Log WARNING (''  - '' @ url @ '' (Reason: '' @ str_opt reason @ '')''))
                 (failed_urls t)
        else [])
     @ [Log INFO ''------------------------'']"

definition interrupted_by_user :: event where
  "interrupted_by_user = Log WARNING (CHR 0x0A # ''Download interrupted by user.'')"

definition critical_error :: "world \<Rightarrow> string \<Rightarrow> event list" where
  "critical_error w m =
     [Log ERROR (''An critical error occurred during multiprocessing: '' @ m),
      Log DEBUG (format_exc w (OtherException m))]"

text \<open>
  The \<^verbatim>\<open>try\<close> with its two handlers: the trace, the value of \<^verbatim>\<open>results\<close> and the
  counters on entry to \<^verbatim>\<open>finally\<close>.
\<close>

definition try_pool ::
  "world \<Rightarrow> pool_behaviour \<Rightarrow> int \<Rightarrow> args_tuple list
     \<Rightarrow> event list \<times> result list option \<times> tally" where
  "try_pool w pb processes download_args =
     (let t0 = \<lparr>success_count = 0, fail_count = 0, failed_urls = []\<rparr>;
          started = Pool processes # map Dispatch download_args;
          collect = (\<lambda>sched. imap_unordered sched (\<lambda>a. snd (download_video w a)) download_args)
      in case pb of
           Completes sched \<Rightarrow>
             (started, Some (collect sched), count_results (collect sched) t0)
         | KeyboardInterrupt_collecting sched k \<Rightarrow>
             (started @ [interrupted_by_user], None, t0)
         | KeyboardInterrupt_counting sched k \<Rightarrow>
             (started @ [interrupted_by_user], Some (collect sched),
              count_results (take k (collect sched)) t0)
         | Exception_creating_pool m \<Rightarrow>
             (Pool processes # critical_error w m, None, t0)
         | Exception_collecting sched k m \<Rightarrow>
             (started @ critical_error w m, None, t0))"

text \<open>The log calls that open \<^verbatim>\<open>main\<close>, before the \<^verbatim>\<open>try\<close> around \<^verbatim>\<open>os.makedirs\<close>.\<close>

definition opening_logs ::
  "world \<Rightarrow> string list \<Rightarrow> string \<Rightarrow> string \<Rightarrow> int \<Rightarrow> string option \<Rightarrow> event list" where
  "opening_logs w urls quality output_dir processes cookiefile =
     [Log INFO (''Starting download process for '' @ str_nat (length urls) @ '' videos.''),
      Log INFO (''Quality: '' @ quality @ ''p''),
      Log INFO (''Output directory: '' @ os_path_abspath w output_dir),
      Log INFO (''Using '' @ str_int processes @ '' parallel processes.'')]
     @ (if truthy cookiefile
        then [Log INFO (''Using cookie file: '' @ str_opt cookiefile)] else [])"

definition main ::
  "world \<Rightarrow> pool_behaviour \<Rightarrow> string list \<Rightarrow> string \<Rightarrow> string \<Rightarrow> int \<Rightarrow> string option \<Rightarrow> bool
     \<Rightarrow> event list \<times> main_end" where
  "main w pb urls quality output_dir processes cookiefile quiet_ydl =
     (let abs_output_dir = os_path_abspath w output_dir;
          ev0 = opening_logs w urls quality output_dir processes cookiefile
      in case os_makedirs w abs_output_dir of
           Some e \<Rightarrow>
             (ev0 @ [Makedirs abs_output_dir,
                     Log ERROR (''Failed to create output directory '' @ quoted abs_output_dir
                                @ '': '' @ e)],
              Aborted)
         | None \<Rightarrow>
             (let ev1 = ev0 @ [Makedirs abs_output_dir]
                        @ (if output_dir \<noteq> ''.''
                           then [Log INFO (''Ensured output directory exists: '' @ abs_output_dir)]
                           else []);
                  download_args = map (\<lambda>url. (url, quality, output_dir, cookiefile, quiet_ydl)) urls
              in case try_pool w pb processes download_args of
                   (ev2, results, t) \<Rightarrow>
                     (ev1 @ ev2 @ summary_block abs_output_dir t, Summarized results t)))"

section \<open>The command line: the \<^verbatim>\<open>__main__\<close> block\<close>

text \<open>The namespace that \<^verbatim>\<open>parse_args\<close> returns, defaults filled in.\<close>

record namespace =
  args_urls :: "string list option"
  args_file :: "string option"
  args_quality :: string
  args_output :: string
  args_processes :: int
  args_cookiefile :: "string option"
  args_quiet_ydl :: bool
  args_verbose :: bool

datatype process_end = Exit int | Returned main_end

text \<open>The comprehension over the lines of the URL file.\<close>

definition urls_of_lines :: "string list \<Rightarrow> string list" where
  "urls_of_lines ls = map strip (filter (\<lambda>line. strip line \<noteq> [] \<and> \<not> startswith_hash line) ls)"

text \<open>
  The choice of \<^verbatim>\<open>video_urls\<close>: the trace and the list, or \<open>None\<close> where the source
  calls \<^verbatim>\<open>exit(1)\<close>.
\<close>

definition load_urls :: "world \<Rightarrow> namespace \<Rightarrow> event list \<times> string list option" where
  "load_urls w args =
     (case args_urls args of
        Some (u # us) \<Rightarrow> ([], Some (u # us))
      | _ \<Rightarrow>
          (if truthy (args_file args)
           then (let file_path = os_path_abspath w (str_opt (args_file args))
                 in case open_read w file_path of
                      Content text \<Rightarrow>
                        (let video_urls = urls_of_lines (file_lines text)
                         in if video_urls = []
                            then ([Log ERROR (''No valid URLs found in file: '' @ file_path)], None)
                            else ([Log INFO (''Loaded '' @ str_nat (length video_urls)
                                     @ '' URLs from '' @ file_path)],
                                  Some video_urls))
                    | FileNotFoundError \<Rightarrow>
                        ([Log ERROR (''URL file not found: '' @ file_path)], None)
                    | ReadError m \<Rightarrow>
                        ([Log ERROR (''Error reading URL file '' @ quoted file_path @ '': '' @ m)],
                         None))
           else ([], Some [])))"

definition resolve_processes :: "world \<Rightarrow> int \<Rightarrow> event list \<times> int" where
  "resolve_processes w processes =
     (if processes \<le> 0
      then ([Log WARNING (''Invalid process count ('' @ str_int processes
               @ ''). Using default: '' @ str_int (cpu_count w))],
            cpu_count w)
      else ([], processes))"

definition resolve_cookie :: "world \<Rightarrow> string option \<Rightarrow> event list \<times> string option" where
  "resolve_cookie w cookiefile =
     (if truthy cookiefile
      then (let cookie_path = os_path_abspath w (str_opt cookiefile)
            in (if \<not> os_path_exists w cookie_path
                then [Log WARNING (''Specified cookie file does not exist: '' @ cookie_path)]
                else [],
                Some cookie_path))
      else ([], None))"

definition run :: "world \<Rightarrow> pool_behaviour \<Rightarrow> namespace \<Rightarrow> event list \<times> process_end" where
  "run w pb args =
     (let ev0 = (if args_verbose args then [Log DEBUG ''Verbose logging enabled.''] else [])
      in case load_urls w args of
           (ev1, None) \<Rightarrow> (ev0 @ ev1, Exit 1)
         | (ev1, Some video_urls) \<Rightarrow>
             (case resolve_processes w (args_processes args) of
                (ev2, processes) \<Rightarrow>
                  (case resolve_cookie w (args_cookiefile args) of
                     (ev3, cookie_path) \<Rightarrow>
                       (case main w pb video_urls (args_quality args) (args_output args)
                               processes cookie_path (args_quiet_ydl args) of
                          (ev4, e) \<Rightarrow> (ev0 @ ev1 @ ev2 @ ev3 @ ev4, Returned e)))))"

section \<open>Words of the specification\<close>

text \<open>
  The run is interrupted when \<^verbatim>\<open>KeyboardInterrupt\<close> reaches the \<^verbatim>\<open>try\<close> of
  \<^verbatim>\<open>main\<close>; the pool raises when the other handler of that \<^verbatim>\<open>try\<close> is entered.
\<close>

definition interrupted :: "pool_behaviour \<Rightarrow> bool" where
  "interrupted pb =
     (case pb of
        KeyboardInterrupt_collecting sched k \<Rightarrow> True
      | KeyboardInterrupt_counting sched k \<Rightarrow> True
      | _ \<Rightarrow> False)"

definition pool_raises :: "pool_behaviour \<Rightarrow> bool" where
  "pool_raises pb =
     (case pb of
        Exception_creating_pool m \<Rightarrow> True
      | Exception_collecting sched k m \<Rightarrow> True
      | _ \<Rightarrow> False)"

text \<open>
  The results that the workers had handed back when the \<^verbatim>\<open>try\<close> of \<^verbatim>\<open>main\<close> was
  left: those the pool had yielded so far.
\<close>

definition produced_so_far :: "world \<Rightarrow> pool_behaviour \<Rightarrow> args_tuple list \<Rightarrow> result list" where
  "produced_so_far w pb download_args =
     (let collect = (\<lambda>sched. imap_unordered sched (\<lambda>a. snd (download_video w a)) download_args)
      in case pb of
           Completes sched \<Rightarrow> collect sched
         | KeyboardInterrupt_collecting sched k \<Rightarrow> take k (collect sched)
         | KeyboardInterrupt_counting sched k \<Rightarrow> collect sched
         | Exception_creating_pool m \<Rightarrow> []
         | Exception_collecting sched k m \<Rightarrow> take k (collect sched))"

text \<open>
  The fatal cases of the URL file: it is the source of the URLs and it is missing,
  cannot be read, or has no line that counts.
\<close>

definition url_file_fatal :: "world \<Rightarrow> namespace \<Rightarrow> bool" where
  "url_file_fatal w args =
     ((case args_urls args of Some (u # us) \<Rightarrow> False | _ \<Rightarrow> True)
      \<and> truthy (args_file args)
      \<and> (case open_read w (os_path_abspath w (str_opt (args_file args))) of
            FileNotFoundError \<Rightarrow> True
          | ReadError m \<Rightarrow> True
          | Content text \<Rightarrow> urls_of_lines (file_lines text) = []))"

text \<open>
  The requests handed to the pool, read off a trace; and the one behaviour of the pool in
  which none is handed over.
\<close>

definition dispatched :: "event list \<Rightarrow> args_tuple list" where
  "dispatched ev = concat (map (\<lambda>e. case e of Dispatch a \<Rightarrow> [a] | _ \<Rightarrow> []) ev)"

definition created_pool_fails :: "pool_behaviour \<Rightarrow> bool" where
  "created_pool_fails pb = (case pb of Exception_creating_pool m \<Rightarrow> True | _ \<Rightarrow> False)"

text \<open>
  The request of the specification (its section 3) has a component that the tuple built
  in \<^verbatim>\<open>main\<close> lacks, the identity override. \<open>args_of_request\<close> is the tuple that
  \<^verbatim>\<open>main\<close> builds from the other components, and \<open>spec_identity\<close> the identity string
  in the specification's words: the override when provided, else the generated one, else
  the fixed default.
\<close>

record DownloadRequest =
  req_url :: string
  req_quality :: string
  req_outputDir :: string
  req_identityOverride :: "string option"
  req_credentialFile :: "string option"
  req_quiet :: bool

definition args_of_request :: "DownloadRequest \<Rightarrow> args_tuple" where
  "args_of_request r =
     (req_url r, req_quality r, req_outputDir r, req_credentialFile r, req_quiet r)"

definition spec_identity :: "string option \<Rightarrow> string option \<Rightarrow> string" where
  "spec_identity override generated =
     (case override of
        Some s \<Rightarrow> s
      | None \<Rightarrow> (case generated of Some g \<Rightarrow> g | None \<Rightarrow> ''Mozilla/5.0''))"

text \<open>
  The identity string that an options dict carries (the \<^verbatim>\<open>User-Agent\<close> header), and
  the options dict that the worker builds for a request, if it gets that far.
\<close>

definition identity_sent :: "ydl_opts \<Rightarrow> string option" where
  "identity_sent opts =
     (case map_of opts ''http_headers'' of
        Some (Dict h) \<Rightarrow> (case map_of h ''User-Agent'' of Some (Str s) \<Rightarrow> Some s | _ \<Rightarrow> None)
      | _ \<Rightarrow> None)"

fun options_for :: "world \<Rightarrow> args_tuple \<Rightarrow> ydl_opts option" where
  "options_for w (url, quality, output_dir, cookiefile, quiet_ydl) =
     (case build_options w url quality output_dir cookiefile quiet_ydl of
        Inl e \<Rightarrow> None
      | Inr (user_agent, opts, ev) \<Rightarrow> Some opts)"

text \<open>
  A \<open>world\<close> seen as collaborators that may raise anything: what they raise is an
  instance of \<^verbatim>\<open>Exception\<close>.
\<close>

definition only_Exceptions :: "world \<Rightarrow> raised collaborators" where
  "only_Exceptions w =
     \<lparr>os_path_abspath = os_path_abspath w,
      os_path_join = os_path_join w,
      os_path_dirname = os_path_dirname w,
      os_path_exists = os_path_exists w,
      os_makedirs = os_makedirs w,
      open_read = open_read w,
      cpu_count = cpu_count w,
      ua = map_option (\<lambda>gen url. map_sum Exception id (gen url)) (ua w),
      YoutubeDL = (\<lambda>opts. map_option Exception (YoutubeDL w opts)),
      extract_info = (\<lambda>opts url. map_sum Exception id (extract_info w opts url)),
      download = (\<lambda>opts url. map_option Exception (download w opts url)),
      release = (\<lambda>opts. map_option Exception (release w opts)),
      format_exc = (\<lambda>x. case x of Exception e \<Rightarrow> format_exc w e | BaseException b \<Rightarrow> b)\<rparr>"

text \<open>
  What \<^verbatim>\<open>list(...)\<close> over the pool's iterator gives for the outcomes of the workers in
  completion order: the list of results when every worker returned; otherwise it does
  not complete, on account of the first worker that raised (an \<^verbatim>\<open>Exception\<close> of a
  worker is raised again in the parent; after anything else the result never arrives).
\<close>

fun collected :: "('e + 'r) list \<Rightarrow> 'e + 'r list" where
  "collected [] = Inr []"
| "collected (Inl e # outs) = Inl e"
| "collected (Inr r # outs) = (case collected outs of Inl e \<Rightarrow> Inl e | Inr rs \<Rightarrow> Inr (r # rs))"

text \<open>
  The claim about the worker, in its words: the result for what left the body of the
  \<^verbatim>\<open>try\<close> (\<open>None\<close>: nothing was raised), and the log calls: none at error level on
  success, exactly one, the last call, after a \<^verbatim>\<open>DownloadError\<close>, and exactly one followed
  by the stack trace at debug level after another \<^verbatim>\<open>Exception\<close>. What is not an
  instance of \<^verbatim>\<open>Exception\<close> is raised on.
\<close>

definition error_count :: "event list \<Rightarrow> nat" where
  "error_count ev = length (filter (\<lambda>e. case e of Log ERROR m \<Rightarrow> True | _ \<Rightarrow> False) ev)"

definition result_as_claimed :: "string \<Rightarrow> raised option \<Rightarrow> raised + result" where
  "result_as_claimed url x =
     (case x of
        None \<Rightarrow> Inr (url, True, None)
      | Some (Exception (DownloadError m)) \<Rightarrow> Inr (url, False, Some m)
      | Some (Exception (OtherException m)) \<Rightarrow> Inr (url, False, Some (''Unexpected error: '' @ m))
      | Some (BaseException b) \<Rightarrow> Inl (BaseException b))"

definition logs_as_claimed :: "raised collaborators \<Rightarrow> raised option \<Rightarrow> event list \<Rightarrow> bool" where
  "logs_as_claimed w x ev =
     (case x of
        None \<Rightarrow> error_count ev = 0
      | Some (Exception (DownloadError m)) \<Rightarrow>
          error_count ev = 1 \<and> (case rev ev of Log ERROR msg # _ \<Rightarrow> True | _ \<Rightarrow> False)
      | Some (Exception (OtherException m)) \<Rightarrow>
          error_count ev = 1
          \<and> (case rev ev of
                Log DEBUG t # Log ERROR msg # _ \<Rightarrow> t = format_exc w (Exception (OtherException m))
              | _ \<Rightarrow> False)
      | Some (BaseException b) \<Rightarrow> error_count ev = 0)"

definition as_claimed :: "raised collaborators \<Rightarrow> args_tuple \<Rightarrow> raised option \<Rightarrow> bool" where
  "as_claimed w a x =
     (snd (download_video_raising w a) = result_as_claimed (fst a) x
      \<and> logs_as_claimed w x (fst (download_video_raising w a)))"

section \<open>Example environments\<close>

text \<open>
  Concrete collaborators on which the theorems below are instantiated. In
  \<open>example_world\<close> the working directory is \<^verbatim>\<open>/work\<close>, no cookie file exists, the
  generator answers \<^verbatim>\<open>UA-1\<close>, the engine fails with a \<^verbatim>\<open>DownloadError\<close> on the URL
  \<^verbatim>\<open>bad\<close> and with another exception on the URL \<^verbatim>\<open>odd\<close>, and the file
  \<^verbatim>\<open>/work/urls.txt\<close> holds two URLs, a comment and a blank line;
  \<^verbatim>\<open>/work/empty.txt\<close> holds a comment only, and \<^verbatim>\<open>/work/notes.txt\<close> an indented
  line whose first visible character is \<^verbatim>\<open>#\<close>, then a URL.
\<close>

definition example_file :: string where
  "example_file =
     ''https://a.example/1'' @ [CHR 0x0A] @ ''# a comment'' @ [CHR 0x0A] @ [CHR 0x0A]
     @ ''  https://a.example/2  '' @ [CHR 0x0A]"

definition indented_file :: string where
  "indented_file = ''  # not a comment'' @ [CHR 0x0A] @ ''https://a.example/3'' @ [CHR 0x0A]"

definition example_world :: world where
  "example_world =
     \<lparr>os_path_abspath = (\<lambda>p. ''/work/'' @ p),
      os_path_join = (\<lambda>a b. a @ ''/'' @ b),
      os_path_dirname = (\<lambda>p. ''/work/out''),
      os_path_exists = (\<lambda>p. False),
      os_makedirs = (\<lambda>p. None),
      open_read = (\<lambda>p. if p = ''/work/urls.txt'' then Content example_file
                        else if p = ''/work/empty.txt'' then Content (''# nothing'' @ [CHR 0x0A])
                        else if p = ''/work/notes.txt'' then Content indented_file
                        else FileNotFoundError),
      cpu_count = 4,
      ua = Some (\<lambda>url. Inr ''UA-1''),
      YoutubeDL = (\<lambda>opts. None),
      extract_info = (\<lambda>opts url. if url = ''bad'' then Inl (DownloadError ''Video unavailable'')
                                   else Inr (Some ''Title'')),
      download = (\<lambda>opts url. if url = ''odd'' then Some (OtherException ''boom'') else None),
      release = (\<lambda>opts. None),
      format_exc = (\<lambda>e. ''Traceback (most recent call last)'')\<rparr>"

text \<open>The same, except that the output directory cannot be created.\<close>

definition readonly_world :: world where
  "readonly_world = example_world\<lparr>os_makedirs := (\<lambda>p. Some ''Permission denied'')\<rparr>"

definition example_args :: namespace where
  "example_args =
     \<lparr>args_urls = Some [''a'', ''bad''], args_file = None, args_quality = ''720'',
      args_output = ''out'', args_processes = 0, args_cookiefile = Some ''cookies.txt'',
      args_quiet_ydl = False, args_verbose = False\<rparr>"

definition example_file_args :: namespace where
  "example_file_args = example_args\<lparr>args_urls := None, args_file := Some ''urls.txt''\<rparr>"

text \<open>A request with an identity override, and an environment in which the cookie file exists.\<close>

definition example_request :: DownloadRequest where
  "example_request =
     \<lparr>req_url = ''a'', req_quality = ''720'', req_outputDir = ''out'',
      req_identityOverride = Some ''Custom/1.0'', req_credentialFile = None, req_quiet = False\<rparr>"

definition cookie_world :: world where
  "cookie_world = example_world\<lparr>os_path_exists := (\<lambda>p. p = ''/work/cookies.txt'')\<rparr>"

text \<open>
  Collaborators that fail at each place of the worker: the generator, the opening of
  the session, the transfer (with a \<^verbatim>\<open>DownloadError\<close>), the release of the session; and
  a transfer interrupted by \<^verbatim>\<open>KeyboardInterrupt\<close>.
\<close>

definition no_agent_world :: "raised collaborators" where
  "no_agent_world =
     only_Exceptions (example_world\<lparr>ua := Some (\<lambda>url. Inl (OtherException ''no agents''))\<rparr>)"

definition no_session_world :: "raised collaborators" where
  "no_session_world =
     only_Exceptions (example_world\<lparr>YoutubeDL := (\<lambda>opts. Some (OtherException ''bad options''))\<rparr>)"

definition blocked_world :: "raised collaborators" where
  "blocked_world =
     only_Exceptions (example_world\<lparr>download := (\<lambda>opts url. Some (DownloadError ''HTTP Error 403''))\<rparr>)"

definition unreleased_world :: "raised collaborators" where
  "unreleased_world =
     only_Exceptions (example_world\<lparr>release := (\<lambda>opts. Some (OtherException ''cannot save cookies''))\<rparr>)"

definition interrupt_world :: "raised collaborators" where
  "interrupt_world =
     (only_Exceptions example_world)
       \<lparr>download := (\<lambda>opts url. Some (BaseException ''KeyboardInterrupt''))\<rparr>"

section \<open>Supporting lemmas\<close>

lemma mset_remove_nth:
  "i < length xs \<Longrightarrow> add_mset (xs ! i) (mset (take i xs @ drop (Suc i) xs)) = mset xs"
proof -
  assume "i < length xs"
  then have "xs = take i xs @ xs ! i # drop (Suc i) xs"
    by (rule id_take_nth_drop)
  then have "mset xs = mset (take i xs @ xs ! i # drop (Suc i) xs)"
    by simp
  then show ?thesis
    by simp
qed

lemma mset_completion_order: "mset (completion_order sched xs) = mset xs"
proof (induction sched xs rule: completion_order.induct)
  case (3 c sched x xs)
  let ?ys = "x # xs"
  let ?i = "c mod length ?ys"
  have i: "?i < length ?ys"
    by simp
  have "mset (completion_order (c # sched) ?ys)
          = add_mset (?ys ! ?i) (mset (completion_order sched (take ?i ?ys @ drop (Suc ?i) ?ys)))"
    by (simp add: Let_def)
  also have "\<dots> = add_mset (?ys ! ?i) (mset (take ?i ?ys @ drop (Suc ?i) ?ys))"
    using "3.IH" [of ?i] by simp
  also have "\<dots> = mset ?ys"
    using i by (rule mset_remove_nth)
  finally show ?case .
qed simp_all

lemma set_completion_order: "set (completion_order sched xs) = set xs"
  using mset_completion_order [of sched xs] by (rule mset_eq_setD)

lemma count_results_total:
  "success_count (count_results rs t) + fail_count (count_results rs t)
     = success_count t + fail_count t + length rs"
  by (induction rs t rule: count_results.induct) simp_all

lemma dropWhile_all: "dropWhile P xs = [] \<longleftrightarrow> (\<forall>x\<in>set xs. P x)"
  by (induction xs) auto

lemma strip_empty_iff: "strip s = [] \<longleftrightarrow> (\<forall>c\<in>set s. isspace c)"
proof
  assume "strip s = []"
  then have a: "\<forall>c\<in>set (dropWhile isspace s). isspace c"
    by (simp add: strip_def dropWhile_all)
  show "\<forall>c\<in>set s. isspace c"
  proof (cases "dropWhile isspace s")
    case Nil
    then show ?thesis by (simp add: dropWhile_all)
  next
    case (Cons c cs)
    then have "\<not> isspace c"
      using hd_dropWhile [of isspace s] by simp
    with a Cons show ?thesis by simp
  qed
next
  assume "\<forall>c\<in>set s. isspace c"
  then have e: "dropWhile isspace s = []"
    by (simp add: dropWhile_all)
  show "strip s = []"
    unfolding strip_def e by simp
qed

lemma concat_file_lines: "concat (file_lines s) = s"
  by (induction s) (auto split: list.splits)

lemma download_video_url:
  "fst (snd (download_video w (url, quality, output_dir, cookiefile, quiet_ydl))) = url"
  by (simp add: download_video.simps split: prod.splits option.splits exn.splits)

lemma main_completes:
  assumes "os_makedirs w (os_path_abspath w output_dir) = None"
  shows "snd (main w (Completes sched) urls quality output_dir processes cookiefile quiet_ydl)
     = Summarized
        (Some (imap_unordered sched (\<lambda>a. snd (download_video w a))
                 (map (\<lambda>url. (url, quality, output_dir, cookiefile, quiet_ydl)) urls)))
        (count_results
           (imap_unordered sched (\<lambda>a. snd (download_video w a))
              (map (\<lambda>url. (url, quality, output_dir, cookiefile, quiet_ydl)) urls))
           \<lparr>success_count = 0, fail_count = 0, failed_urls = []\<rparr>)"
  using assms by (simp add: main_def try_pool_def Let_def)

lemma main_summary_last:
  assumes "snd (main w pb urls quality output_dir processes cookiefile quiet_ydl) = Summarized r t"
  shows "\<exists>pre. fst (main w pb urls quality output_dir processes cookiefile quiet_ydl)
           = pre @ summary_block (os_path_abspath w output_dir) t"
  using assms
  by (auto simp add: main_def Let_def split: option.splits prod.splits)

lemma opening_logs_are_logs:
  "list_all is_Log (opening_logs w urls quality output_dir processes cookiefile)"
  by (simp add: opening_logs_def)

lemma main_trace_shape:
  "\<exists>post. fst (main w pb urls quality output_dir processes cookiefile quiet_ydl)
       = opening_logs w urls quality output_dir processes cookiefile
         @ Makedirs (os_path_abspath w output_dir) # post
     \<and> (\<forall>m. os_makedirs w (os_path_abspath w output_dir) = Some m \<longrightarrow>
          post = [Log ERROR (''Failed to create output directory ''
                               @ quoted (os_path_abspath w output_dir) @ '': '' @ m)])"
  by (cases "os_makedirs w (os_path_abspath w output_dir)")
     (simp_all add: main_def Let_def split: prod.splits)

lemma main_aborted:
  "os_makedirs w (os_path_abspath w output_dir) = Some m \<Longrightarrow>
   snd (main w pb urls quality output_dir processes cookiefile quiet_ydl) = Aborted"
  by (simp add: main_def Let_def)

lemma main_interrupted_collecting:
  "os_makedirs w (os_path_abspath w output_dir) = None \<Longrightarrow>
   snd (main w (KeyboardInterrupt_collecting sched k) urls quality output_dir processes cookiefile quiet_ydl)
     = Summarized None \<lparr>success_count = 0, fail_count = 0, failed_urls = []\<rparr>"
  by (simp add: main_def try_pool_def Let_def)

lemma load_urls_None_iff: "snd (load_urls w args) = None \<longleftrightarrow> url_file_fatal w args"
  by (auto simp add: load_urls_def url_file_fatal_def Let_def
           split: option.splits list.splits read_outcome.splits)

lemma run_exit:
  "snd (load_urls w args) = None \<Longrightarrow>
   run w pb args
     = ((if args_verbose args then [Log DEBUG ''Verbose logging enabled.''] else [])
          @ fst (load_urls w args),
        Exit 1)"
  by (cases "load_urls w args") (simp add: run_def Let_def)

lemma run_main:
  assumes "snd (load_urls w args) = Some video_urls"
  shows "run w pb args =
     ((if args_verbose args then [Log DEBUG ''Verbose logging enabled.''] else [])
        @ fst (load_urls w args)
        @ fst (resolve_processes w (args_processes args))
        @ fst (resolve_cookie w (args_cookiefile args))
        @ fst (main w pb video_urls (args_quality args) (args_output args)
                 (snd (resolve_processes w (args_processes args)))
                 (snd (resolve_cookie w (args_cookiefile args))) (args_quiet_ydl args)),
      Returned (snd (main w pb video_urls (args_quality args) (args_output args)
                 (snd (resolve_processes w (args_processes args)))
                 (snd (resolve_cookie w (args_cookiefile args))) (args_quiet_ydl args))))"
  using assms
  by (cases "load_urls w args") (simp add: run_def Let_def split: prod.splits)

lemma main_summarized:
  "os_makedirs w (os_path_abspath w output_dir) = None \<Longrightarrow>
   \<exists>r t. snd (main w pb urls quality output_dir processes cookiefile quiet_ydl) = Summarized r t"
  by (simp add: main_def Let_def split: prod.splits)

lemma dispatched_append [simp]: "dispatched (xs @ ys) = dispatched xs @ dispatched ys"
  by (simp add: dispatched_def)

lemma dispatched_Cons_Log [simp]: "dispatched (Log l m # ev) = dispatched ev"
  by (simp add: dispatched_def)

lemma dispatched_Nil [simp]: "dispatched [] = []"
  by (simp add: dispatched_def)

lemma dispatched_Makedirs [simp]: "dispatched (Makedirs p # ev) = dispatched ev"
  by (simp add: dispatched_def)

lemma dispatched_Pool [simp]: "dispatched (Pool n # ev) = dispatched ev"
  by (simp add: dispatched_def)

lemma dispatched_map_Dispatch [simp]: "dispatched (map Dispatch xs) = xs"
  by (induction xs) (simp_all add: dispatched_def)

lemma dispatched_logs: "list_all is_Log ev \<Longrightarrow> dispatched ev = []"
  by (induction ev) (auto simp: dispatched_def split: event.splits)

lemma summary_block_logs: "list_all is_Log (summary_block d t)"
  by (simp add: summary_block_def list_all_iff split_def image_iff) auto

lemma load_urls_logs: "list_all is_Log (fst (load_urls w args))"
  by (simp add: load_urls_def Let_def split: option.splits list.splits read_outcome.splits)

lemma resolve_processes_logs: "list_all is_Log (fst (resolve_processes w p))"
  by (simp add: resolve_processes_def)

lemma resolve_cookie_logs: "list_all is_Log (fst (resolve_cookie w c))"
  by (simp add: resolve_cookie_def Let_def)

lemma dispatched_try_pool:
  "dispatched (fst (try_pool w pb processes download_args))
     = (if created_pool_fails pb then [] else download_args)"
  by (cases pb)
     (simp_all add: try_pool_def Let_def created_pool_fails_def interrupted_by_user_def
        critical_error_def)

lemma dispatched_main:
  "dispatched (fst (main w pb urls quality output_dir processes cookiefile quiet_ydl))
     = (if os_makedirs w (os_path_abspath w output_dir) = None \<and> \<not> created_pool_fails pb
        then map (\<lambda>url. (url, quality, output_dir, cookiefile, quiet_ydl)) urls else [])"
proof (cases "os_makedirs w (os_path_abspath w output_dir)")
  case None
  obtain ev2 results t
    where tp: "try_pool w pb processes
                 (map (\<lambda>url. (url, quality, output_dir, cookiefile, quiet_ydl)) urls) = (ev2, results, t)"
    by (metis prod_cases3)
  have "dispatched ev2 = (if created_pool_fails pb then []
          else map (\<lambda>url. (url, quality, output_dir, cookiefile, quiet_ydl)) urls)"
    using dispatched_try_pool [of w pb processes
            "map (\<lambda>url. (url, quality, output_dir, cookiefile, quiet_ydl)) urls"]
    by (simp add: tp)
  then show ?thesis
    using None tp
    by (simp add: main_def Let_def dispatched_logs [OF opening_logs_are_logs]
          dispatched_logs [OF summary_block_logs])
next
  case (Some m)
  then show ?thesis
    by (simp add: main_def Let_def dispatched_logs [OF opening_logs_are_logs])
qed

lemma dispatched_run:
  "dispatched (fst (run w pb args))
     = (case snd (load_urls w args) of
          None \<Rightarrow> []
        | Some video_urls \<Rightarrow>
            if os_makedirs w (os_path_abspath w (args_output args)) = None \<and> \<not> created_pool_fails pb
            then map (\<lambda>url. (url, args_quality args, args_output args,
                    snd (resolve_cookie w (args_cookiefile args)), args_quiet_ydl args)) video_urls
            else [])"
proof (cases "snd (load_urls w args)")
  case None
  then show ?thesis
    by (simp add: run_exit dispatched_logs [OF load_urls_logs])
next
  case (Some video_urls)
  show ?thesis
    unfolding run_main [OF Some]
    by (simp add: Some dispatched_logs [OF load_urls_logs] dispatched_logs [OF resolve_processes_logs]
          dispatched_logs [OF resolve_cookie_logs] dispatched_main)
qed

lemma strip_empty_list_all: "strip s = [] \<longleftrightarrow> list_all isspace s"
  by (simp add: strip_empty_iff list_all_iff)

lemma urls_of_lines_spec:
  "urls_of_lines ls = map strip (filter (\<lambda>l. \<not> list_all isspace l \<and> \<not> startswith_hash l) ls)"
  by (simp add: urls_of_lines_def strip_empty_list_all)

lemma dropWhile_rev_snoc:
  "\<not> P x \<Longrightarrow> rev (dropWhile P (rev (x # xs))) = x # rev (dropWhile P (rev xs))"
  by (simp add: dropWhile_append dropWhile_all)

lemma strip_first_char:
  assumes "\<not> list_all isspace s"
  shows "strip s \<noteq> [] \<and> hd (strip s) = hd (dropWhile isspace s)"
proof -
  from assms have "dropWhile isspace s \<noteq> []"
    by (simp add: dropWhile_all list_all_iff)
  then obtain x xs where d: "dropWhile isspace s = x # xs"
    by (cases "dropWhile isspace s") auto
  then have "\<not> isspace x"
    using hd_dropWhile [of isspace s] by simp
  then have "strip s = x # rev (dropWhile isspace (rev xs))"
    unfolding strip_def d by (rule dropWhile_rev_snoc)
  with d show ?thesis
    by simp
qed

lemma load_urls_file:
  assumes "args_urls args = None" and "args_file args = Some f" and "f \<noteq> []"
  shows "load_urls w args =
     (case open_read w (os_path_abspath w f) of
        Content text \<Rightarrow>
          if urls_of_lines (file_lines text) = []
          then ([Log ERROR (''No valid URLs found in file: '' @ os_path_abspath w f)], None)
          else ([Log INFO (''Loaded '' @ str_nat (length (urls_of_lines (file_lines text)))
                   @ '' URLs from '' @ os_path_abspath w f)],
                Some (urls_of_lines (file_lines text)))
      | FileNotFoundError \<Rightarrow> ([Log ERROR (''URL file not found: '' @ os_path_abspath w f)], None)
      | ReadError m \<Rightarrow>
          ([Log ERROR (''Error reading URL file '' @ quoted (os_path_abspath w f) @ '': '' @ m)], None))"
  using assms
  by (simp add: load_urls_def truthy_def str_opt_def Let_def split: read_outcome.splits)

lemma run_exit_logs:
  assumes "snd (load_urls w args) = None"
  shows "snd (run w pb args) = Exit 1 \<and> list_all is_Log (fst (run w pb args))"
  using assms load_urls_logs [of w args] by (simp add: run_exit)

lemma build_options_Inr:
  assumes "build_options w url quality output_dir cookiefile quiet_ydl = Inr (user_agent, opts, ev)"
  shows "user_agent_of w url = Inr user_agent
       \<and> (opts, ev) = add_cookiefile w url cookiefile
                        (make_ydl_opts w user_agent quality output_dir quiet_ydl)"
  using assms by (auto simp add: build_options_def split: sum.splits prod.splits)

lemma add_cookiefile_keeps:
  assumes "add_cookiefile w url cookiefile opts0 = (opts, ev)" and "map_of opts0 k = Some v"
  shows "map_of opts k = Some v"
  using assms by (auto simp add: add_cookiefile_def split: option.splits if_splits)

lemma logs_no_pool: "list_all is_Log ev \<Longrightarrow> Pool n \<notin> set ev"
  by (auto simp: list_all_iff)

lemma pool_in_try_pool:
  "Pool n \<in> set (fst (try_pool w pb processes download_args)) \<Longrightarrow> n = processes"
  by (cases pb)
     (auto simp add: try_pool_def Let_def interrupted_by_user_def critical_error_def)

lemma pool_in_main:
  assumes "Pool n \<in> set (fst (main w pb urls quality output_dir processes cookiefile quiet_ydl))"
  shows "n = processes"
proof (cases "os_makedirs w (os_path_abspath w output_dir)")
  case None
  obtain ev2 results t
    where tp: "try_pool w pb processes
                 (map (\<lambda>url. (url, quality, output_dir, cookiefile, quiet_ydl)) urls) = (ev2, results, t)"
    by (metis prod_cases3)
  from assms None tp have "Pool n \<in> set ev2"
    using logs_no_pool [OF opening_logs_are_logs] logs_no_pool [OF summary_block_logs]
    by (auto simp add: main_def Let_def split: if_splits)
  then show ?thesis
    using pool_in_try_pool [of n w pb processes
            "map (\<lambda>url. (url, quality, output_dir, cookiefile, quiet_ydl)) urls"]
    by (simp add: tp)
next
  case (Some m)
  with assms show ?thesis
    using logs_no_pool [OF opening_logs_are_logs]
    by (auto simp add: main_def Let_def)
qed

lemma pool_in_run:
  assumes "Pool n \<in> set (fst (run w pb args))"
  shows "n = snd (resolve_processes w (args_processes args))"
proof (cases "snd (load_urls w args)")
  case None
  with assms show ?thesis
    using logs_no_pool [OF load_urls_logs] by (auto simp add: run_exit)
next
  case (Some video_urls)
  from assms have "Pool n \<in> set (fst (main w pb video_urls (args_quality args) (args_output args)
                 (snd (resolve_processes w (args_processes args)))
                 (snd (resolve_cookie w (args_cookiefile args))) (args_quiet_ydl args)))"
    unfolding run_main [OF Some]
    using logs_no_pool [OF load_urls_logs] logs_no_pool [OF resolve_processes_logs]
      logs_no_pool [OF resolve_cookie_logs]
    by (auto split: if_splits)
  then show ?thesis
    by (rule pool_in_main)
qed

lemma run_continues:
  "snd (load_urls w args) = Some video_urls \<Longrightarrow> snd (run w pb args) \<noteq> Exit 1"
  by (simp add: run_main)

lemma cookie_warning_in_run:
  assumes "snd (load_urls w args) = Some video_urls"
    and "args_cookiefile args = Some c" and "c \<noteq> []"
    and "\<not> os_path_exists w (os_path_abspath w c)"
  shows "Log WARNING (''Specified cookie file does not exist: '' @ os_path_abspath w c)
           \<in> set (fst (run w pb args))"
  unfolding run_main [OF assms(1)]
  using assms(2-4) by (simp add: resolve_cookie_def truthy_def str_opt_def Let_def)

text \<open>Every order of the results is the completion order of some schedule.\<close>

lemma completion_order_any_permutation:
  "mset ys = mset xs \<Longrightarrow> \<exists>sched. completion_order sched xs = ys"
proof (induction ys arbitrary: xs)
  case Nil
  then have "xs = []"
    by simp
  then show ?case
    by (intro exI [where x = "[]"]) simp
next
  case (Cons y ys)
  then have "y \<in> set xs"
    by (metis list.set_intros(1) mset_eq_setD)
  then obtain i where i: "i < length xs" and y: "xs ! i = y"
    by (auto simp: in_set_conv_nth)
  let ?rest = "take i xs @ drop (Suc i) xs"
  have "add_mset y (mset ?rest) = mset xs"
    using mset_remove_nth [OF i] y by simp
  also have "\<dots> = add_mset y (mset ys)"
    using Cons.prems by simp
  finally have "mset ys = mset ?rest"
    by (simp only: add_mset_add_mset_same_iff)
  then obtain sched where s: "completion_order sched ?rest = ys"
    using Cons.IH by blast
  from i obtain x xs' where xs: "xs = x # xs'"
    by (cases xs) auto
  have "completion_order (i # sched) xs = y # ys"
    using i y s unfolding xs by (simp add: Let_def)
  then show ?case
    by blast
qed

text \<open>The worker's log calls and exits, and the worker in a \<open>world\<close>.\<close>

lemma error_count_append [simp]: "error_count (xs @ ys) = error_count xs + error_count ys"
  by (simp add: error_count_def)

lemma error_count_Nil [simp]: "error_count [] = 0"
  by (simp add: error_count_def)

lemma add_cookiefile_no_error:
  "add_cookiefile w url cookiefile opts0 = (opts, ev) \<Longrightarrow> error_count ev = 0"
  by (auto simp add: add_cookiefile_def error_count_def split: option.splits if_splits)

lemma build_options_no_error:
  "build_options w url quality output_dir cookiefile quiet_ydl = Inr (user_agent, opts, ev)
     \<Longrightarrow> error_count ev = 0"
  by (auto simp add: build_options_def split: sum.splits prod.splits dest: add_cookiefile_no_error)

lemma with_body_no_error: "error_count (fst (with_body w opts url user_agent output_dir)) = 0"
  by (simp add: with_body_def Let_def error_count_def split: sum.splits option.splits)

lemma try_body_no_error:
  "error_count (fst (try_body w url quality output_dir cookiefile quiet_ydl)) = 0"
proof (cases "build_options w url quality output_dir cookiefile quiet_ydl")
  case (Inl e)
  then show ?thesis
    by (simp add: try_body_def)
next
  case (Inr p)
  obtain user_agent opts ev1 where p: "p = (user_agent, opts, ev1)"
    by (cases p) auto
  have 1: "error_count ev1 = 0"
    using Inr build_options_no_error unfolding p by blast
  obtain ev video_title x where b: "with_body w opts url user_agent output_dir = (ev, video_title, x)"
    by (cases "with_body w opts url user_agent output_dir") auto
  have 2: "error_count ev = 0"
    using with_body_no_error [of w opts url user_agent output_dir] by (simp add: b)
  show ?thesis
    using 1 2 by (simp add: try_body_def Inr p b split: option.splits)
qed

lemma as_claimed_exit:
  assumes "snd (snd (try_body w url quality output_dir cookiefile quiet_ydl)) = x"
  shows "as_claimed w (url, quality, output_dir, cookiefile, quiet_ydl) x"
proof -
  obtain ev video_title where b: "try_body w url quality output_dir cookiefile quiet_ydl = (ev, video_title, x)"
    using assms by (cases "try_body w url quality output_dir cookiefile quiet_ydl") auto
  have n: "error_count ev = 0"
    using try_body_no_error [of w url quality output_dir cookiefile quiet_ydl] by (simp add: b)
  show ?thesis
    using n
    by (simp add: as_claimed_def download_video_raising.simps b result_as_claimed_def
          logs_as_claimed_def split: option.splits raised.splits exn.splits)
       (simp add: error_count_def)
qed

lemma completion_order_map:
  "completion_order sched (map f xs) = map f (completion_order sched xs)"
proof (induction sched xs rule: completion_order.induct)
  case (3 c sched x xs)
  let ?ys = "x # xs"
  let ?i = "c mod length ?ys"
  have i: "?i < length ?ys"
    by simp
  have r: "take ?i (map f ?ys) @ drop (Suc ?i) (map f ?ys)
             = map f (take ?i ?ys @ drop (Suc ?i) ?ys)"
    by (simp only: take_map drop_map map_append)
  have n: "map f ?ys ! ?i = f (?ys ! ?i)"
    using i by (rule nth_map)
  have "completion_order (c # sched) (f x # map f xs)
          = (let i = c mod length (f x # map f xs)
             in (f x # map f xs) ! i
                # completion_order sched
                    (take i (f x # map f xs) @ drop (Suc i) (f x # map f xs)))"
    by (rule completion_order.simps(3))
  then have "completion_order (c # sched) (map f ?ys)
          = map f ?ys ! ?i
            # completion_order sched (take ?i (map f ?ys) @ drop (Suc ?i) (map f ?ys))"
    by (simp only: list.map(2) [symmetric] length_map Let_def)
  also have "\<dots> = f (?ys ! ?i)
            # map f (completion_order sched (take ?i ?ys @ drop (Suc ?i) ?ys))"
    using "3.IH" [of ?i] by (simp only: r n)
  also have "\<dots> = map f (completion_order (c # sched) ?ys)"
    by (simp add: Let_def)
  finally show ?case .
qed simp_all

lemma collected_map_Inr: "collected (map Inr rs) = Inr rs"
  by (induction rs) simp_all

lemma collected_Inr_only: "collected outs = Inr rs \<Longrightarrow> outs = map Inr rs"
  by (induction outs arbitrary: rs rule: collected.induct) (auto split: sum.splits)

lemma user_agent_of_only_Exceptions:
  "user_agent_of (only_Exceptions w) url = map_sum Exception id (user_agent_of w url)"
  by (simp add: user_agent_of_def only_Exceptions_def split: option.splits)

lemma make_ydl_opts_only_Exceptions:
  "make_ydl_opts (only_Exceptions w) user_agent quality output_dir quiet_ydl
     = make_ydl_opts w user_agent quality output_dir quiet_ydl"
  by (simp add: make_ydl_opts_def output_template_of_def only_Exceptions_def)

lemma add_cookiefile_only_Exceptions:
  "add_cookiefile (only_Exceptions w) url cookiefile opts = add_cookiefile w url cookiefile opts"
  by (simp add: add_cookiefile_def only_Exceptions_def split: option.splits)

lemma build_options_only_Exceptions:
  "build_options (only_Exceptions w) url quality output_dir cookiefile quiet_ydl
     = map_sum Exception id (build_options w url quality output_dir cookiefile quiet_ydl)"
  by (simp add: build_options_def user_agent_of_only_Exceptions make_ydl_opts_only_Exceptions
        add_cookiefile_only_Exceptions split: sum.splits prod.splits)

lemma with_body_only_Exceptions:
  "with_body (only_Exceptions w) opts url user_agent output_dir
     = (case with_body w opts url user_agent output_dir of
          (ev, video_title, x) \<Rightarrow> (ev, video_title, map_option Exception x))"
  by (simp add: with_body_def Let_def output_template_of_def only_Exceptions_def
        split: sum.splits option.splits)

lemma try_body_only_Exceptions:
  "try_body (only_Exceptions w) url quality output_dir cookiefile quiet_ydl
     = (case try_body w url quality output_dir cookiefile quiet_ydl of
          (ev, video_title, x) \<Rightarrow> (ev, video_title, map_option Exception x))"
proof (cases "build_options w url quality output_dir cookiefile quiet_ydl")
  case (Inl e)
  then show ?thesis
    by (simp add: try_body_def build_options_only_Exceptions)
next
  case (Inr p)
  obtain user_agent opts ev1 where p: "p = (user_agent, opts, ev1)"
    by (cases p) auto
  obtain ev video_title x where b: "with_body w opts url user_agent output_dir = (ev, video_title, x)"
    by (cases "with_body w opts url user_agent output_dir") auto
  have y: "YoutubeDL (only_Exceptions w) opts = map_option Exception (YoutubeDL w opts)"
    and r: "release (only_Exceptions w) opts = map_option Exception (release w opts)"
    by (simp_all add: only_Exceptions_def)
  show ?thesis
    by (simp add: try_body_def build_options_only_Exceptions Inr p with_body_only_Exceptions b y r
          split: option.splits)
qed

lemma format_exc_only_Exceptions:
  "format_exc (only_Exceptions w) (Exception e) = format_exc w e"
  by (simp add: only_Exceptions_def)

lemma download_video_raising_only_Exceptions:
  "download_video_raising (only_Exceptions w) a = (fst (download_video w a), Inr (snd (download_video w a)))"
proof -
  obtain url quality output_dir cookiefile quiet_ydl
    where a: "a = (url, quality, output_dir, cookiefile, quiet_ydl)"
    by (cases a) auto
  obtain ev video_title x
    where b: "try_body w url quality output_dir cookiefile quiet_ydl = (ev, video_title, x)"
    by (cases "try_body w url quality output_dir cookiefile quiet_ydl") auto
  show ?thesis
    unfolding a
    by (simp add: download_video_raising.simps download_video.simps try_body_only_Exceptions b
          format_exc_only_Exceptions split: option.splits exn.splits)
qed

lemma try_body_exits:
  fixes w :: "'x collaborators"
  shows "ua w = Some gen \<Longrightarrow> gen url = Inl e \<Longrightarrow> snd (snd (try_body w url quality output_dir cookiefile quiet_ydl)) = Some e"
    and "build_options w url quality output_dir cookiefile quiet_ydl = Inr (user_agent, opts, ev1)
           \<Longrightarrow> YoutubeDL w opts = Some e \<Longrightarrow> snd (snd (try_body w url quality output_dir cookiefile quiet_ydl)) = Some e"
    and "build_options w url quality output_dir cookiefile quiet_ydl = Inr (user_agent, opts, ev1)
           \<Longrightarrow> YoutubeDL w opts = None \<Longrightarrow> release w opts = Some e
           \<Longrightarrow> snd (snd (try_body w url quality output_dir cookiefile quiet_ydl)) = Some e"
    and "build_options w url quality output_dir cookiefile quiet_ydl = Inr (user_agent, opts, ev1)
           \<Longrightarrow> YoutubeDL w opts = None \<Longrightarrow> release w opts = None
           \<Longrightarrow> extract_info w opts url = Inl e
           \<Longrightarrow> snd (snd (try_body w url quality output_dir cookiefile quiet_ydl)) = Some e"
    and "build_options w url quality output_dir cookiefile quiet_ydl = Inr (user_agent, opts, ev1)
           \<Longrightarrow> YoutubeDL w opts = None \<Longrightarrow> release w opts = None
           \<Longrightarrow> extract_info w opts url = Inr title \<Longrightarrow> download w opts url = Some e
           \<Longrightarrow> snd (snd (try_body w url quality output_dir cookiefile quiet_ydl)) = Some e"
    and "build_options w url quality output_dir cookiefile quiet_ydl = Inr (user_agent, opts, ev1)
           \<Longrightarrow> YoutubeDL w opts = None \<Longrightarrow> release w opts = None
           \<Longrightarrow> extract_info w opts url = Inr title \<Longrightarrow> download w opts url = None
           \<Longrightarrow> snd (snd (try_body w url quality output_dir cookiefile quiet_ydl)) = None"
  by (auto simp add: try_body_def with_body_def build_options_def user_agent_of_def Let_def
        split: sum.splits prod.splits option.splits)

section \<open>The claims\<close>

text \<open>
  Claim C1, as amended. For every non-empty list of input URLs, if the output directory
  is created successfully, the run is not interrupted and the pool raises no exception,
  then \<open>main\<close> ends through its summary with \<^verbatim>\<open>results\<close> bound to a list that holds
  exactly the result of the worker on each request (equal as multisets: nothing lost,
  nothing duplicated, in any order), the URLs of the results are the input URLs, and
  the two counters printed by the summary add up to the number of input URLs.
\<close>

theorem one_result_per_url:
  assumes "urls \<noteq> []"
    and "os_makedirs w (os_path_abspath w output_dir) = None"
    and "\<not> interrupted pb" and "\<not> pool_raises pb"
  shows "\<exists>results t.
           snd (main w pb urls quality output_dir processes cookiefile quiet_ydl)
             = Summarized (Some results) t
         \<and> mset results
             = mset (map (\<lambda>url. snd (download_video w (url, quality, output_dir, cookiefile, quiet_ydl))) urls)
         \<and> mset (map fst results) = mset urls
         \<and> length results = length urls
         \<and> success_count t + fail_count t = length urls
         \<and> (\<exists>pre. fst (main w pb urls quality output_dir processes cookiefile quiet_ydl)
                    = pre @ summary_block (os_path_abspath w output_dir) t)"
proof -
  obtain sched where pb: "pb = Completes sched"
    using assms(3,4) by (cases pb) (simp_all add: interrupted_def pool_raises_def)
  let ?args = "map (\<lambda>url. (url, quality, output_dir, cookiefile, quiet_ydl)) urls"
  let ?results = "imap_unordered sched (\<lambda>a. snd (download_video w a)) ?args"
  let ?t = "count_results ?results \<lparr>success_count = 0, fail_count = 0, failed_urls = []\<rparr>"
  have e: "snd (main w pb urls quality output_dir processes cookiefile quiet_ydl)
             = Summarized (Some ?results) ?t"
    unfolding pb using assms(2) by (rule main_completes)
  have m: "mset ?results
             = mset (map (\<lambda>url. snd (download_video w (url, quality, output_dir, cookiefile, quiet_ydl))) urls)"
    by (simp add: imap_unordered_def mset_completion_order comp_def)
  have "mset (map fst ?results) = image_mset fst (mset ?results)"
    by simp
  also have "\<dots> = mset (map (\<lambda>url. fst (snd (download_video w (url, quality, output_dir, cookiefile, quiet_ydl)))) urls)"
    unfolding m by (simp add: image_mset.compositionality comp_def)
  also have "\<dots> = mset urls"
    by (simp only: download_video_url map_ident)
  finally have u: "mset (map fst ?results) = mset urls" .
  have l: "length ?results = length urls"
    using m by (metis length_map size_mset)
  have c: "success_count ?t + fail_count ?t = length urls"
    by (simp add: count_results_total l)
  from e main_summary_last [OF e] m u l c show ?thesis
    by blast
qed

text \<open>
  The amended claim on two URLs, one of which fails in the engine, the second request
  finishing first.
\<close>

theorem one_result_per_url_witness:
  "[''a'', ''bad''] \<noteq> []
   \<and> os_makedirs example_world (os_path_abspath example_world ''out'') = None
   \<and> \<not> interrupted (Completes [1]) \<and> \<not> pool_raises (Completes [1])
   \<and> (\<exists>results t.
        snd (main example_world (Completes [1]) [''a'', ''bad''] ''720'' ''out'' 4 None False)
          = Summarized (Some results) t
        \<and> mset (map fst results) = mset [''a'', ''bad'']
        \<and> length results = 2
        \<and> success_count t + fail_count t = 2)"
proof -
  have 1: "[''a'', ''bad''] \<noteq> []" by simp
  have 2: "os_makedirs example_world (os_path_abspath example_world ''out'') = None"
    by (simp add: example_world_def)
  have 3: "\<not> interrupted (Completes [1])" by (simp add: interrupted_def)
  have 4: "\<not> pool_raises (Completes [1])" by (simp add: pool_raises_def)
  have "\<exists>results t.
        snd (main example_world (Completes [1]) [''a'', ''bad''] ''720'' ''out'' 4 None False)
          = Summarized (Some results) t
        \<and> mset (map fst results) = mset [''a'', ''bad'']
        \<and> length results = 2
        \<and> success_count t + fail_count t = 2"
    using one_result_per_url [OF 1 2 3 4, of "''720''" 4 None False]
    by (simp only: length_Cons list.size One_nat_def numeral_2_eq_2) blast
  with 1 2 3 4 show ?thesis
    by blast
qed

text \<open>
  Claim C1 as stated leaves out the second handler of the \<^verbatim>\<open>try\<close>: when the
  construction of the pool raises, the directory was created and nothing interrupted the
  run, yet \<^verbatim>\<open>results\<close> is never bound and both counters stay at 0 for one input URL.
\<close>

theorem one_result_per_url_counterexample:
  "[''u''] \<noteq> []
   \<and> os_makedirs example_world (os_path_abspath example_world ''out'') = None
   \<and> \<not> interrupted (Exception_creating_pool ''cannot fork'')
   \<and> snd (main example_world (Exception_creating_pool ''cannot fork'') [''u''] ''720'' ''out'' 4 None False)
       = Summarized None \<lparr>success_count = 0, fail_count = 0, failed_urls = []\<rparr>
   \<and> (0::nat) + 0 \<noteq> length [''u'']"
  by code_simp

text \<open>
  Claim C2, as amended. The first collaborator of the worker that raises decides the
  outcome, and a failing release of the session overrides what happened inside the
  \<^verbatim>\<open>with\<close> block. With nothing raised the worker returns \<open>(url, True, None)\<close> and logs
  nothing at error level. For a \<^verbatim>\<open>DownloadError\<close> it returns \<open>(url, False, message)\<close> and
  its last and only call at error level reports it; for any other instance of
  \<^verbatim>\<open>Exception\<close> it returns \<open>(url, False, "Unexpected error: " + message)\<close>, with one call
  at error level followed by the stack trace at debug level. What is not an instance of
  \<^verbatim>\<open>Exception\<close> is not caught: only such an exception leaves the worker. When the
  collaborators raise instances of \<^verbatim>\<open>Exception\<close> only, the worker returns what
  \<open>download_video\<close> returns, and the collection of a batch is complete whichever items
  failed.
\<close>

theorem download_video_contains_exceptions:
  "(\<forall>gen e. ua w = Some gen \<and> gen url = Inl e \<longrightarrow>
        as_claimed w (url, quality, output_dir, cookiefile, quiet_ydl) (Some e))
   \<and> (\<forall>user_agent opts ev1 e.
        build_options w url quality output_dir cookiefile quiet_ydl = Inr (user_agent, opts, ev1)
        \<and> YoutubeDL w opts = Some e \<longrightarrow>
        as_claimed w (url, quality, output_dir, cookiefile, quiet_ydl) (Some e))
   \<and> (\<forall>user_agent opts ev1 e.
        build_options w url quality output_dir cookiefile quiet_ydl = Inr (user_agent, opts, ev1)
        \<and> YoutubeDL w opts = None \<and> release w opts = Some e \<longrightarrow>
        as_claimed w (url, quality, output_dir, cookiefile, quiet_ydl) (Some e))
   \<and> (\<forall>user_agent opts ev1 e.
        build_options w url quality output_dir cookiefile quiet_ydl = Inr (user_agent, opts, ev1)
        \<and> YoutubeDL w opts = None \<and> release w opts = None
        \<and> extract_info w opts url = Inl e \<longrightarrow>
        as_claimed w (url, quality, output_dir, cookiefile, quiet_ydl) (Some e))
   \<and> (\<forall>user_agent opts ev1 title e.
        build_options w url quality output_dir cookiefile quiet_ydl = Inr (user_agent, opts, ev1)
        \<and> YoutubeDL w opts = None \<and> release w opts = None
        \<and> extract_info w opts url = Inr title \<and> download w opts url = Some e \<longrightarrow>
        as_claimed w (url, quality, output_dir, cookiefile, quiet_ydl) (Some e))
   \<and> (\<forall>user_agent opts ev1 title.
        build_options w url quality output_dir cookiefile quiet_ydl = Inr (user_agent, opts, ev1)
        \<and> YoutubeDL w opts = None \<and> release w opts = None
        \<and> extract_info w opts url = Inr title \<and> download w opts url = None \<longrightarrow>
        as_claimed w (url, quality, output_dir, cookiefile, quiet_ydl) None)
   \<and> (\<forall>x. snd (download_video_raising w (url, quality, output_dir, cookiefile, quiet_ydl)) = Inl x \<longrightarrow>
          (\<exists>b. x = BaseException b))
   \<and> download_video_raising (only_Exceptions w0) a
       = (fst (download_video w0 a), Inr (snd (download_video w0 a)))
   \<and> collected (imap_unordered sched (\<lambda>b. snd (download_video_raising (only_Exceptions w0) b)) download_args)
       = Inr (imap_unordered sched (\<lambda>b. snd (download_video w0 b)) download_args)"
proof -
  note cl = as_claimed_exit [of w url quality output_dir cookiefile quiet_ydl]
  have 1: "\<forall>gen e. ua w = Some gen \<and> gen url = Inl e \<longrightarrow>
       as_claimed w (url, quality, output_dir, cookiefile, quiet_ydl) (Some e)"
    by (blast intro: cl try_body_exits(1))
  have 2: "\<forall>user_agent opts ev1 e.
        build_options w url quality output_dir cookiefile quiet_ydl = Inr (user_agent, opts, ev1)
        \<and> YoutubeDL w opts = Some e \<longrightarrow>
        as_claimed w (url, quality, output_dir, cookiefile, quiet_ydl) (Some e)"
    by (blast intro: cl try_body_exits(2))
  have 3: "\<forall>user_agent opts ev1 e.
        build_options w url quality output_dir cookiefile quiet_ydl = Inr (user_agent, opts, ev1)
        \<and> YoutubeDL w opts = None \<and> release w opts = Some e \<longrightarrow>
        as_claimed w (url, quality, output_dir, cookiefile, quiet_ydl) (Some e)"
    by (blast intro: cl try_body_exits(3))
  have 4: "\<forall>user_agent opts ev1 e.
        build_options w url quality output_dir cookiefile quiet_ydl = Inr (user_agent, opts, ev1)
        \<and> YoutubeDL w opts = None \<and> release w opts = None
        \<and> extract_info w opts url = Inl e \<longrightarrow>
        as_claimed w (url, quality, output_dir, cookiefile, quiet_ydl) (Some e)"
    by (blast intro: cl try_body_exits(4))
  have 5: "\<forall>user_agent opts ev1 title e.
        build_options w url quality output_dir cookiefile quiet_ydl = Inr (user_agent, opts, ev1)
        \<and> YoutubeDL w opts = None \<and> release w opts = None
        \<and> extract_info w opts url = Inr title \<and> download w opts url = Some e \<longrightarrow>
        as_claimed w (url, quality, output_dir, cookiefile, quiet_ydl) (Some e)"
    by (blast intro: cl try_body_exits(5))
  have 6: "\<forall>user_agent opts ev1 title.
        build_options w url quality output_dir cookiefile quiet_ydl = Inr (user_agent, opts, ev1)
        \<and> YoutubeDL w opts = None \<and> release w opts = None
        \<and> extract_info w opts url = Inr title \<and> download w opts url = None \<longrightarrow>
        as_claimed w (url, quality, output_dir, cookiefile, quiet_ydl) None"
    by (blast intro: cl try_body_exits(6))
  have esc: "\<forall>x. snd (download_video_raising w (url, quality, output_dir, cookiefile, quiet_ydl)) = Inl x \<longrightarrow>
          (\<exists>b. x = BaseException b)"
    by (auto simp add: download_video_raising.simps split: prod.splits option.splits raised.splits exn.splits)
  have col: "collected (imap_unordered sched (\<lambda>b. snd (download_video_raising (only_Exceptions w0) b)) download_args)
       = Inr (imap_unordered sched (\<lambda>b. snd (download_video w0 b)) download_args)"
  proof -
    have "map (\<lambda>b. snd (download_video_raising (only_Exceptions w0) b)) download_args
            = map Inr (map (\<lambda>b. snd (download_video w0 b)) download_args)"
      by (simp add: download_video_raising_only_Exceptions)
    then show ?thesis
      by (simp only: imap_unordered_def completion_order_map collected_map_Inr)
  qed
  from 1 2 3 4 5 6 esc col download_video_raising_only_Exceptions [of w0 a] show ?thesis
    by (intro conjI)
qed

text \<open>
  A failure at each place: the generator, the opening of the session, the release, the
  metadata request, the transfer; a success; an interrupted transfer; and a batch in
  which the item next to a failed one is collected.
\<close>

theorem download_video_contains_exceptions_witness:
  "ua no_agent_world = Some (\<lambda>url. Inl (Exception (OtherException ''no agents'')))
   \<and> snd (download_video_raising no_agent_world (''a'', ''720'', ''out'', None, False))
       = Inr (''a'', False, Some ''Unexpected error: no agents'')
   \<and> build_options no_session_world ''a'' ''720'' ''out'' None False
       = Inr (''UA-1'', make_ydl_opts no_session_world ''UA-1'' ''720'' ''out'' False, [])
   \<and> YoutubeDL no_session_world (make_ydl_opts no_session_world ''UA-1'' ''720'' ''out'' False)
       = Some (Exception (OtherException ''bad options''))
   \<and> snd (download_video_raising no_session_world (''a'', ''720'', ''out'', None, False))
       = Inr (''a'', False, Some ''Unexpected error: bad options'')
   \<and> build_options unreleased_world ''a'' ''720'' ''out'' None False
       = Inr (''UA-1'', make_ydl_opts unreleased_world ''UA-1'' ''720'' ''out'' False, [])
   \<and> YoutubeDL unreleased_world (make_ydl_opts unreleased_world ''UA-1'' ''720'' ''out'' False) = None
   \<and> release unreleased_world (make_ydl_opts unreleased_world ''UA-1'' ''720'' ''out'' False)
       = Some (Exception (OtherException ''cannot save cookies''))
   \<and> snd (download_video_raising unreleased_world (''a'', ''720'', ''out'', None, False))
       = Inr (''a'', False, Some ''Unexpected error: cannot save cookies'')
   \<and> build_options (only_Exceptions example_world) ''bad'' ''720'' ''out'' None False
       = Inr (''UA-1'', make_ydl_opts (only_Exceptions example_world) ''UA-1'' ''720'' ''out'' False, [])
   \<and> YoutubeDL (only_Exceptions example_world)
         (make_ydl_opts (only_Exceptions example_world) ''UA-1'' ''720'' ''out'' False) = None
   \<and> release (only_Exceptions example_world)
         (make_ydl_opts (only_Exceptions example_world) ''UA-1'' ''720'' ''out'' False) = None
   \<and> extract_info (only_Exceptions example_world)
         (make_ydl_opts (only_Exceptions example_world) ''UA-1'' ''720'' ''out'' False) ''bad''
       = Inl (Exception (DownloadError ''Video unavailable''))
   \<and> snd (download_video_raising (only_Exceptions example_world) (''bad'', ''720'', ''out'', None, False))
       = Inr (''bad'', False, Some ''Video unavailable'')
   \<and> error_count (fst (download_video_raising (only_Exceptions example_world)
                           (''bad'', ''720'', ''out'', None, False))) = 1
   \<and> build_options blocked_world ''a'' ''720'' ''out'' None False
       = Inr (''UA-1'', make_ydl_opts blocked_world ''UA-1'' ''720'' ''out'' False, [])
   \<and> YoutubeDL blocked_world (make_ydl_opts blocked_world ''UA-1'' ''720'' ''out'' False) = None
   \<and> release blocked_world (make_ydl_opts blocked_world ''UA-1'' ''720'' ''out'' False) = None
   \<and> extract_info blocked_world (make_ydl_opts blocked_world ''UA-1'' ''720'' ''out'' False) ''a''
       = Inr (Some ''Title'')
   \<and> download blocked_world (make_ydl_opts blocked_world ''UA-1'' ''720'' ''out'' False) ''a''
       = Some (Exception (DownloadError ''HTTP Error 403''))
   \<and> snd (download_video_raising blocked_world (''a'', ''720'', ''out'', None, False))
       = Inr (''a'', False, Some ''HTTP Error 403'')
   \<and> extract_info (only_Exceptions example_world)
         (make_ydl_opts (only_Exceptions example_world) ''UA-1'' ''720'' ''out'' False) ''a''
       = Inr (Some ''Title'')
   \<and> download (only_Exceptions example_world)
         (make_ydl_opts (only_Exceptions example_world) ''UA-1'' ''720'' ''out'' False) ''a'' = None
   \<and> snd (download_video_raising (only_Exceptions example_world) (''a'', ''720'', ''out'', None, False))
       = Inr (''a'', True, None)
   \<and> error_count (fst (download_video_raising (only_Exceptions example_world)
                           (''a'', ''720'', ''out'', None, False))) = 0
   \<and> snd (download_video_raising interrupt_world (''a'', ''720'', ''out'', None, False))
       = Inl (BaseException ''KeyboardInterrupt'')
   \<and> collected (imap_unordered [1] (\<lambda>b. snd (download_video_raising (only_Exceptions example_world) b))
                  [(''bad'', ''720'', ''out'', None, False), (''a'', ''720'', ''out'', None, False)])
       = Inr [(''a'', True, None), (''bad'', False, Some ''Video unavailable'')]"
proof -
  note t = download_video_contains_exceptions
  note c1 = t [THEN conjunct1, rule_format]
  note c2 = t [THEN conjunct2, THEN conjunct1, rule_format]
  note c3 = t [THEN conjunct2, THEN conjunct2, THEN conjunct1, rule_format]
  note c4 = t [THEN conjunct2, THEN conjunct2, THEN conjunct2, THEN conjunct1, rule_format]
  note c5 = t [THEN conjunct2, THEN conjunct2, THEN conjunct2, THEN conjunct2, THEN conjunct1,
               rule_format]
  note c6 = t [THEN conjunct2, THEN conjunct2, THEN conjunct2, THEN conjunct2, THEN conjunct2,
               THEN conjunct1, rule_format]
  let ?E = "only_Exceptions example_world"
  have g: "ua no_session_world = Some (\<lambda>url. Inr ''UA-1'')"
    "ua unreleased_world = Some (\<lambda>url. Inr ''UA-1'')"
    "ua blocked_world = Some (\<lambda>url. Inr ''UA-1'')"
    "ua ?E = Some (\<lambda>url. Inr ''UA-1'')"
    by (simp_all add: no_session_world_def unreleased_world_def blocked_world_def
          only_Exceptions_def example_world_def)
  have u1: "ua no_agent_world = Some (\<lambda>url. Inl (Exception (OtherException ''no agents'')))"
    by (simp add: no_agent_world_def only_Exceptions_def example_world_def)
  have "as_claimed no_agent_world (''a'', ''720'', ''out'', None, False)
          (Some (Exception (OtherException ''no agents'')))"
    by (rule c1 [where gen = "\<lambda>url. Inl (Exception (OtherException ''no agents''))"])
       (simp add: u1)
  then have r1: "snd (download_video_raising no_agent_world (''a'', ''720'', ''out'', None, False))
       = Inr (''a'', False, Some ''Unexpected error: no agents'')"
    by (simp add: as_claimed_def result_as_claimed_def)
  have b2: "build_options no_session_world ''a'' ''720'' ''out'' None False
       = Inr (''UA-1'', make_ydl_opts no_session_world ''UA-1'' ''720'' ''out'' False, [])"
    by (simp add: build_options_def user_agent_of_def add_cookiefile_def g)
  have y2: "YoutubeDL no_session_world (make_ydl_opts no_session_world ''UA-1'' ''720'' ''out'' False)
       = Some (Exception (OtherException ''bad options''))"
    by (simp add: no_session_world_def only_Exceptions_def example_world_def)
  have "as_claimed no_session_world (''a'', ''720'', ''out'', None, False)
          (Some (Exception (OtherException ''bad options'')))"
    by (rule c2 [where user_agent = "''UA-1''" and ?ev1.0 = "[]"
                   and opts = "make_ydl_opts no_session_world ''UA-1'' ''720'' ''out'' False"])
       (simp add: b2 y2)
  then have r2: "snd (download_video_raising no_session_world (''a'', ''720'', ''out'', None, False))
       = Inr (''a'', False, Some ''Unexpected error: bad options'')"
    by (simp add: as_claimed_def result_as_claimed_def)
  have b3: "build_options unreleased_world ''a'' ''720'' ''out'' None False
       = Inr (''UA-1'', make_ydl_opts unreleased_world ''UA-1'' ''720'' ''out'' False, [])"
    by (simp add: build_options_def user_agent_of_def add_cookiefile_def g)
  have y3: "YoutubeDL unreleased_world (make_ydl_opts unreleased_world ''UA-1'' ''720'' ''out'' False) = None"
    and l3: "release unreleased_world (make_ydl_opts unreleased_world ''UA-1'' ''720'' ''out'' False)
       = Some (Exception (OtherException ''cannot save cookies''))"
    by (simp_all add: unreleased_world_def only_Exceptions_def example_world_def)
  have "as_claimed unreleased_world (''a'', ''720'', ''out'', None, False)
          (Some (Exception (OtherException ''cannot save cookies'')))"
    by (rule c3 [where user_agent = "''UA-1''" and ?ev1.0 = "[]"
                   and opts = "make_ydl_opts unreleased_world ''UA-1'' ''720'' ''out'' False"])
       (simp add: b3 y3 l3)
  then have r3: "snd (download_video_raising unreleased_world (''a'', ''720'', ''out'', None, False))
       = Inr (''a'', False, Some ''Unexpected error: cannot save cookies'')"
    by (simp add: as_claimed_def result_as_claimed_def)
  have b4: "build_options ?E url ''720'' ''out'' None False
       = Inr (''UA-1'', make_ydl_opts ?E ''UA-1'' ''720'' ''out'' False, [])" for url
    by (simp add: build_options_def user_agent_of_def add_cookiefile_def g)
  have y4: "YoutubeDL ?E (make_ydl_opts ?E ''UA-1'' ''720'' ''out'' False) = None"
    and l4: "release ?E (make_ydl_opts ?E ''UA-1'' ''720'' ''out'' False) = None"
    and x4: "extract_info ?E (make_ydl_opts ?E ''UA-1'' ''720'' ''out'' False) ''bad''
       = Inl (Exception (DownloadError ''Video unavailable''))"
    and x6: "extract_info ?E (make_ydl_opts ?E ''UA-1'' ''720'' ''out'' False) ''a'' = Inr (Some ''Title'')"
    and d6: "download ?E (make_ydl_opts ?E ''UA-1'' ''720'' ''out'' False) ''a'' = None"
    by (simp_all add: only_Exceptions_def example_world_def)
  have "as_claimed ?E (''bad'', ''720'', ''out'', None, False)
          (Some (Exception (DownloadError ''Video unavailable'')))"
    by (rule c4 [where user_agent = "''UA-1''" and ?ev1.0 = "[]"
                   and opts = "make_ydl_opts ?E ''UA-1'' ''720'' ''out'' False"])
       (simp add: b4 y4 l4 x4)
  then have r4: "snd (download_video_raising ?E (''bad'', ''720'', ''out'', None, False))
       = Inr (''bad'', False, Some ''Video unavailable'')"
    and e4: "error_count (fst (download_video_raising ?E (''bad'', ''720'', ''out'', None, False))) = 1"
    by (simp_all add: as_claimed_def result_as_claimed_def logs_as_claimed_def)
  have b5: "build_options blocked_world ''a'' ''720'' ''out'' None False
       = Inr (''UA-1'', make_ydl_opts blocked_world ''UA-1'' ''720'' ''out'' False, [])"
    by (simp add: build_options_def user_agent_of_def add_cookiefile_def g)
  have y5: "YoutubeDL blocked_world (make_ydl_opts blocked_world ''UA-1'' ''720'' ''out'' False) = None"
    and l5: "release blocked_world (make_ydl_opts blocked_world ''UA-1'' ''720'' ''out'' False) = None"
    and x5: "extract_info blocked_world (make_ydl_opts blocked_world ''UA-1'' ''720'' ''out'' False) ''a''
       = Inr (Some ''Title'')"
    and d5: "download blocked_world (make_ydl_opts blocked_world ''UA-1'' ''720'' ''out'' False) ''a''
       = Some (Exception (DownloadError ''HTTP Error 403''))"
    by (simp_all add: blocked_world_def only_Exceptions_def example_world_def)
  have "as_claimed blocked_world (''a'', ''720'', ''out'', None, False)
          (Some (Exception (DownloadError ''HTTP Error 403'')))"
    by (rule c5 [where user_agent = "''UA-1''" and ?ev1.0 = "[]" and title = "Some ''Title''"
                   and opts = "make_ydl_opts blocked_world ''UA-1'' ''720'' ''out'' False"])
       (simp add: b5 y5 l5 x5 d5)
  then have r5: "snd (download_video_raising blocked_world (''a'', ''720'', ''out'', None, False))
       = Inr (''a'', False, Some ''HTTP Error 403'')"
    by (simp add: as_claimed_def result_as_claimed_def)
  have "as_claimed ?E (''a'', ''720'', ''out'', None, False) None"
    by (rule c6 [where user_agent = "''UA-1''" and ?ev1.0 = "[]" and title = "Some ''Title''"
                   and opts = "make_ydl_opts ?E ''UA-1'' ''720'' ''out'' False"])
       (simp add: b4 y4 l4 x6 d6)
  then have r6: "snd (download_video_raising ?E (''a'', ''720'', ''out'', None, False))
       = Inr (''a'', True, None)"
    and e6: "error_count (fst (download_video_raising ?E (''a'', ''720'', ''out'', None, False))) = 0"
    by (simp_all add: as_claimed_def result_as_claimed_def logs_as_claimed_def)
  have r7: "snd (download_video_raising interrupt_world (''a'', ''720'', ''out'', None, False))
       = Inl (BaseException ''KeyboardInterrupt'')"
    by code_simp
  have c: "imap_unordered [1] (\<lambda>b. snd (download_video example_world b))
             [(''bad'', ''720'', ''out'', None, False), (''a'', ''720'', ''out'', None, False)]
           = [(''a'', True, None), (''bad'', False, Some ''Video unavailable'')]"
    by code_simp
  have r8: "collected (imap_unordered [1] (\<lambda>b. snd (download_video_raising ?E b))
                  [(''bad'', ''720'', ''out'', None, False), (''a'', ''720'', ''out'', None, False)])
       = Inr [(''a'', True, None), (''bad'', False, Some ''Video unavailable'')]"
    using t [of _ _ _ _ _ _ example_world _ "[1]"
               "[(''bad'', ''720'', ''out'', None, False), (''a'', ''720'', ''out'', None, False)]",
             THEN conjunct2, THEN conjunct2, THEN conjunct2, THEN conjunct2, THEN conjunct2,
             THEN conjunct2, THEN conjunct2, THEN conjunct2]
    unfolding c .
  from u1 r1 b2 y2 r2 b3 y3 l3 r3 b4 [of "''bad''"] y4 l4 x4 r4 e4 b5 y5 l5 x5 d5 r5 x6 d6 r6 e6 r7 r8
  show ?thesis
    by (intro conjI)
qed

text \<open>
  Claim C2 as stated has the worker return a result on any exception and never raise.
  \<^verbatim>\<open>KeyboardInterrupt\<close> raised during the transfer is an instance of neither class
  named by the two handlers: it leaves the worker.
\<close>

theorem download_video_contains_exceptions_counterexample:
  "download interrupt_world (make_ydl_opts interrupt_world ''UA-1'' ''720'' ''out'' False) ''a''
     = Some (BaseException ''KeyboardInterrupt'')
   \<and> snd (download_video_raising interrupt_world (''a'', ''720'', ''out'', None, False))
       = Inl (BaseException ''KeyboardInterrupt'')"
  by code_simp

text \<open>
  Claim C3. In every call of \<open>main\<close> the trace has a call of \<^verbatim>\<open>os.makedirs\<close> on
  the absolute form of the output directory, and everything before that call is
  logging: the pool is built and requests are handed to it only afterwards. If the call
  fails, the only thing that follows is one call of the logger at error level with the
  reason, \<open>main\<close> returns, and the trace has no pool and no dispatched request.
\<close>

theorem output_directory_before_dispatch:
  "(\<exists>pre post.
      fst (main w pb urls quality output_dir processes cookiefile quiet_ydl)
        = pre @ Makedirs (os_path_abspath w output_dir) # post
      \<and> (\<forall>e\<in>set pre. is_Log e)
      \<and> (\<forall>m. os_makedirs w (os_path_abspath w output_dir) = Some m \<longrightarrow>
            post = [Log ERROR (''Failed to create output directory ''
                                 @ quoted (os_path_abspath w output_dir) @ '': '' @ m)]))
   \<and> (\<forall>m. os_makedirs w (os_path_abspath w output_dir) = Some m \<longrightarrow>
         snd (main w pb urls quality output_dir processes cookiefile quiet_ydl) = Aborted
         \<and> (\<forall>e\<in>set (fst (main w pb urls quality output_dir processes cookiefile quiet_ydl)).
               \<not> is_Dispatch e \<and> \<not> is_Pool e))"
proof -
  let ?ev = "fst (main w pb urls quality output_dir processes cookiefile quiet_ydl)"
  let ?abs = "os_path_abspath w output_dir"
  let ?pre = "opening_logs w urls quality output_dir processes cookiefile"
  obtain post where ev: "?ev = ?pre @ Makedirs ?abs # post"
    and post: "\<forall>m. os_makedirs w ?abs = Some m \<longrightarrow>
          post = [Log ERROR (''Failed to create output directory '' @ quoted ?abs @ '': '' @ m)]"
    using main_trace_shape [of w pb urls quality output_dir processes cookiefile quiet_ydl]
    by blast
  have logs: "\<forall>e\<in>set ?pre. is_Log e"
    using opening_logs_are_logs [of w urls quality output_dir processes cookiefile]
    by (simp add: list_all_iff)
  have a: "\<exists>pre post. ?ev = pre @ Makedirs ?abs # post \<and> (\<forall>e\<in>set pre. is_Log e)
      \<and> (\<forall>m. os_makedirs w ?abs = Some m \<longrightarrow>
            post = [Log ERROR (''Failed to create output directory '' @ quoted ?abs @ '': '' @ m)])"
    using ev post logs by blast
  have b: "\<forall>m. os_makedirs w ?abs = Some m \<longrightarrow>
         snd (main w pb urls quality output_dir processes cookiefile quiet_ydl) = Aborted
         \<and> (\<forall>e\<in>set ?ev. \<not> is_Dispatch e \<and> \<not> is_Pool e)"
  proof (intro allI impI conjI)
    fix m
    assume m: "os_makedirs w ?abs = Some m"
    then show "snd (main w pb urls quality output_dir processes cookiefile quiet_ydl) = Aborted"
      by (rule main_aborted)
    from m post have "post = [Log ERROR (''Failed to create output directory '' @ quoted ?abs @ '': '' @ m)]"
      by blast
    with ev have "?ev = ?pre @ [Makedirs ?abs, Log ERROR (''Failed to create output directory '' @ quoted ?abs @ '': '' @ m)]"
      by simp
    with logs show "\<forall>e\<in>set ?ev. \<not> is_Dispatch e \<and> \<not> is_Pool e"
      by (auto simp: event.disc_eq_case split: event.splits)
  qed
  from a b show ?thesis
    by blast
qed

text \<open>
  A directory that cannot be created, and one that can: there the first request is
  dispatched after the directory was made.
\<close>

theorem output_directory_before_dispatch_witness:
  "os_makedirs readonly_world (os_path_abspath readonly_world ''out'') = Some ''Permission denied''
   \<and> snd (main readonly_world (Completes []) [''a'', ''bad''] ''720'' ''out'' 4 None False) = Aborted
   \<and> list_all (\<lambda>e. \<not> is_Dispatch e \<and> \<not> is_Pool e)
        (fst (main readonly_world (Completes []) [''a'', ''bad''] ''720'' ''out'' 4 None False))
   \<and> (\<exists>pre post.
        fst (main example_world (Completes []) [''a'', ''bad''] ''720'' ''out'' 4 None False)
          = pre @ Makedirs ''/work/out'' # post
        \<and> list_all is_Log pre
        \<and> Dispatch (''a'', ''720'', ''out'', None, False) \<in> set post)"
proof -
  have h: "os_makedirs readonly_world (os_path_abspath readonly_world ''out'') = Some ''Permission denied''"
    by (simp add: readonly_world_def example_world_def)
  have p: "os_path_abspath example_world ''out'' = ''/work/out''"
    by (simp add: example_world_def)
  have d: "Dispatch (''a'', ''720'', ''out'', None, False)
             \<in> set (fst (main example_world (Completes []) [''a'', ''bad''] ''720'' ''out'' 4 None False))"
    by code_simp
  have 1: "snd (main readonly_world (Completes []) [''a'', ''bad''] ''720'' ''out'' 4 None False) = Aborted
     \<and> list_all (\<lambda>e. \<not> is_Dispatch e \<and> \<not> is_Pool e)
        (fst (main readonly_world (Completes []) [''a'', ''bad''] ''720'' ''out'' 4 None False))"
    using output_directory_before_dispatch
            [of readonly_world "Completes []" "[''a'', ''bad'']" "''720''" "''out''" 4 None False] h
    by (simp add: list_all_iff)
  have 2: "\<exists>pre post.
        fst (main example_world (Completes []) [''a'', ''bad''] ''720'' ''out'' 4 None False)
          = pre @ Makedirs ''/work/out'' # post
        \<and> list_all is_Log pre
        \<and> Dispatch (''a'', ''720'', ''out'', None, False) \<in> set post"
  proof -
    obtain pre post where e: "fst (main example_world (Completes []) [''a'', ''bad''] ''720'' ''out'' 4 None False)
          = pre @ Makedirs ''/work/out'' # post" and l: "\<forall>e\<in>set pre. is_Log e"
      using output_directory_before_dispatch
            [of example_world "Completes []" "[''a'', ''bad'']" "''720''" "''out''" 4 None False]
      unfolding p by blast
    from d e l have "Dispatch (''a'', ''720'', ''out'', None, False) \<in> set post"
      by auto
    with e l show ?thesis
      by (auto simp: list_all_iff)
  qed
  from h 1 2 show ?thesis
    by blast
qed

text \<open>
  Claim C4, which the code does not meet. \<^verbatim>\<open>results\<close> is bound only when
  \<^verbatim>\<open>list(...)\<close> has collected every result, and the counting loop comes after it. With
  two requests, the first of which had succeeded when the interruption arrived, the
  summary reports 0 videos downloaded and \<^verbatim>\<open>results\<close> is unbound.
\<close>

theorem interrupt_discards_produced_results:
  "produced_so_far example_world (KeyboardInterrupt_collecting [] 1)
      [(''a'', ''720'', ''out'', None, False), (''bad'', ''720'', ''out'', None, False)]
     = [(''a'', True, None)]
   \<and> snd (main example_world (KeyboardInterrupt_collecting [] 1) [''a'', ''bad'']
             ''720'' ''out'' 4 None False)
     = Summarized None \<lparr>success_count = 0, fail_count = 0, failed_urls = []\<rparr>
   \<and> Log INFO ''Successfully downloaded: 0 video(s)''
       \<in> set (fst (main example_world (KeyboardInterrupt_collecting [] 1) [''a'', ''bad'']
                     ''720'' ''out'' 4 None False))"
  by code_simp

text \<open>
  Claim C5, as amended. The process exits with code 1 exactly in the fatal cases of the
  URL file (missing, unreadable, or without a URL). In every other run in which the output
  directory can be created, whatever the pool does (partial failure, interruption, an
  exception of the pool), \<open>main\<close> ends through its \<^verbatim>\<open>finally\<close> block and the trace of
  the process ends with the summary block.
\<close>

theorem summary_unless_fatal:
  "(snd (run w pb args) = Exit 1) = url_file_fatal w args
   \<and> (\<not> url_file_fatal w args \<and> os_makedirs w (os_path_abspath w (args_output args)) = None \<longrightarrow>
        (\<exists>r t pre. snd (run w pb args) = Returned (Summarized r t)
            \<and> fst (run w pb args) = pre @ summary_block (os_path_abspath w (args_output args)) t))"
proof (cases "snd (load_urls w args)")
  case None
  then have "url_file_fatal w args"
    by (simp add: load_urls_None_iff)
  moreover have "snd (run w pb args) = Exit 1"
    using None by (simp add: run_exit)
  ultimately show ?thesis
    by simp
next
  case (Some video_urls)
  then have nf: "\<not> url_file_fatal w args"
    using load_urls_None_iff [of w args] by simp
  let ?m = "main w pb video_urls (args_quality args) (args_output args)
                 (snd (resolve_processes w (args_processes args)))
                 (snd (resolve_cookie w (args_cookiefile args))) (args_quiet_ydl args)"
  note r = run_main [OF Some, of pb]
  have ne: "snd (run w pb args) \<noteq> Exit 1"
    by (simp add: r)
  have "\<exists>r t pre. snd (run w pb args) = Returned (Summarized r t)
            \<and> fst (run w pb args) = pre @ summary_block (os_path_abspath w (args_output args)) t"
    if mk: "os_makedirs w (os_path_abspath w (args_output args)) = None"
  proof -
    obtain rs t where e: "snd ?m = Summarized rs t"
      using main_summarized [OF mk] by blast
    obtain pre where p: "fst ?m = pre @ summary_block (os_path_abspath w (args_output args)) t"
      using main_summary_last [OF e] by blast
    from e p show ?thesis
      unfolding r by (simp del: append_assoc add: append_assoc [symmetric])
  qed
  with nf ne show ?thesis
    by blast
qed

text \<open>
  A batch with one failing item, an interrupted batch and a batch whose pool cannot be
  built: each ends with the summary block.
\<close>

theorem summary_unless_fatal_witness:
  "\<not> url_file_fatal example_world example_args
   \<and> os_makedirs example_world (os_path_abspath example_world (args_output example_args)) = None
   \<and> (\<exists>r t pre.
         snd (run example_world (Completes [1]) example_args) = Returned (Summarized r t)
         \<and> fst (run example_world (Completes [1]) example_args)
             = pre @ summary_block (os_path_abspath example_world (args_output example_args)) t)
   \<and> (\<exists>r t pre.
         snd (run example_world (KeyboardInterrupt_collecting [] 1) example_args)
           = Returned (Summarized r t)
         \<and> fst (run example_world (KeyboardInterrupt_collecting [] 1) example_args)
             = pre @ summary_block (os_path_abspath example_world (args_output example_args)) t)
   \<and> (\<exists>r t pre.
         snd (run example_world (Exception_creating_pool ''cannot fork'') example_args)
           = Returned (Summarized r t)
         \<and> fst (run example_world (Exception_creating_pool ''cannot fork'') example_args)
             = pre @ summary_block (os_path_abspath example_world (args_output example_args)) t)"
proof -
  have 1: "\<not> url_file_fatal example_world example_args"
    by code_simp
  have 2: "os_makedirs example_world (os_path_abspath example_world (args_output example_args)) = None"
    by (simp add: example_world_def)
  from 1 2 summary_unless_fatal [of example_world "Completes [1]" example_args]
    summary_unless_fatal [of example_world "KeyboardInterrupt_collecting [] 1" example_args]
    summary_unless_fatal [of example_world "Exception_creating_pool ''cannot fork''" example_args]
  show ?thesis
    by blast
qed

text \<open>
  Claim C5 as stated fails where \<^verbatim>\<open>os.makedirs\<close> raises: \<open>main\<close> logs the error and
  returns before its second \<^verbatim>\<open>try\<close>, so the process ends normally, not with code 1,
  and no summary is printed.
\<close>

theorem summary_unless_fatal_counterexample:
  "\<not> url_file_fatal readonly_world example_args
   \<and> snd (run readonly_world (Completes []) example_args) = Returned Aborted
   \<and> Returned Aborted \<noteq> Exit 1
   \<and> Log INFO ''--- Download Summary ---''
       \<notin> set (fst (run readonly_world (Completes []) example_args))"
  by code_simp

text \<open>
  Claim C6. When the URLs come from a file, the URL list is the stripped form of the
  lines that are neither blank (white space only) nor begin with \<^verbatim>\<open>#\<close>, in the order
  of the file. If the file does not exist, or no line remains, the process exits with
  code 1 and its trace holds log calls only: no directory is made, no pool is built and
  nothing is dispatched. If exactly two lines remain, two URLs are loaded, and once
  the output directory is made and the pool is built exactly two requests are dispatched.
\<close>

theorem url_file_lines:
  assumes "args_urls args = None" and "args_file args = Some f" and "f \<noteq> []"
  shows "(\<forall>body. open_read w (os_path_abspath w f) = Content body \<longrightarrow>
            urls_of_lines (file_lines body)
              = map strip (filter (\<lambda>l. \<not> list_all isspace l \<and> \<not> startswith_hash l) (file_lines body))
            \<and> (urls_of_lines (file_lines body) \<noteq> [] \<longrightarrow>
                 snd (load_urls w args) = Some (urls_of_lines (file_lines body))))
       \<and> (open_read w (os_path_abspath w f) = FileNotFoundError
            \<or> (\<exists>body. open_read w (os_path_abspath w f) = Content body
                  \<and> filter (\<lambda>l. \<not> list_all isspace l \<and> \<not> startswith_hash l) (file_lines body) = [])
          \<longrightarrow> snd (run w pb args) = Exit 1 \<and> list_all is_Log (fst (run w pb args)))
       \<and> (\<forall>body. open_read w (os_path_abspath w f) = Content body
             \<and> length (filter (\<lambda>l. \<not> list_all isspace l \<and> \<not> startswith_hash l) (file_lines body)) = 2
          \<longrightarrow> (\<exists>u1 u2. snd (load_urls w args) = Some [u1, u2])
              \<and> (os_makedirs w (os_path_abspath w (args_output args)) = None \<and> \<not> created_pool_fails pb
                   \<longrightarrow> length (dispatched (fst (run w pb args))) = 2))"
proof -
  note lu = load_urls_file [OF assms, of w]
  have a: "urls_of_lines (file_lines body)
              = map strip (filter (\<lambda>l. \<not> list_all isspace l \<and> \<not> startswith_hash l) (file_lines body))
            \<and> (urls_of_lines (file_lines body) \<noteq> [] \<longrightarrow>
                 snd (load_urls w args) = Some (urls_of_lines (file_lines body)))"
    if "open_read w (os_path_abspath w f) = Content body" for body
    using that by (simp add: lu urls_of_lines_spec)
  have b: "snd (run w pb args) = Exit 1 \<and> list_all is_Log (fst (run w pb args))"
    if "open_read w (os_path_abspath w f) = FileNotFoundError
            \<or> (\<exists>body. open_read w (os_path_abspath w f) = Content body
                  \<and> filter (\<lambda>l. \<not> list_all isspace l \<and> \<not> startswith_hash l) (file_lines body) = [])"
  proof -
    from that have "snd (load_urls w args) = None"
      by (auto simp add: lu urls_of_lines_spec)
    then show ?thesis
      by (rule run_exit_logs)
  qed
  have c: "(\<exists>u1 u2. snd (load_urls w args) = Some [u1, u2])
              \<and> (os_makedirs w (os_path_abspath w (args_output args)) = None \<and> \<not> created_pool_fails pb
                   \<longrightarrow> length (dispatched (fst (run w pb args))) = 2)"
    if "open_read w (os_path_abspath w f) = Content body
             \<and> length (filter (\<lambda>l. \<not> list_all isspace l \<and> \<not> startswith_hash l) (file_lines body)) = 2"
    for body
  proof -
    from that have len: "length (urls_of_lines (file_lines body)) = 2"
      by (simp add: urls_of_lines_spec)
    then have ne: "urls_of_lines (file_lines body) \<noteq> []"
      by auto
    with that have s: "snd (load_urls w args) = Some (urls_of_lines (file_lines body))"
      by (simp add: lu)
    from len obtain u1 u2 where "urls_of_lines (file_lines body) = [u1, u2]"
      by (auto simp: length_Suc_conv numeral_2_eq_2)
    with s have 1: "\<exists>u1 u2. snd (load_urls w args) = Some [u1, u2]"
      by simp
    have 2: "length (dispatched (fst (run w pb args))) = 2"
      if "os_makedirs w (os_path_abspath w (args_output args)) = None \<and> \<not> created_pool_fails pb"
      using that by (simp add: dispatched_run s len)
    from 1 2 show ?thesis
      by blast
  qed
  from a b c show ?thesis
    by blast
qed

text \<open>
  A file of two URLs, one comment and one blank line; a missing file; a file that holds
  a comment only.
\<close>

theorem url_file_lines_witness:
  "args_urls example_file_args = None \<and> args_file example_file_args = Some ''urls.txt''
   \<and> ''urls.txt'' \<noteq> []
   \<and> open_read example_world (os_path_abspath example_world ''urls.txt'') = Content example_file
   \<and> length (filter (\<lambda>l. \<not> list_all isspace l \<and> \<not> startswith_hash l) (file_lines example_file)) = 2
   \<and> length (filter startswith_hash (file_lines example_file)) = 1
   \<and> length (filter (list_all isspace) (file_lines example_file)) = 1
   \<and> os_makedirs example_world (os_path_abspath example_world (args_output example_file_args)) = None
   \<and> \<not> created_pool_fails (Completes [])
   \<and> snd (load_urls example_world example_file_args)
       = Some [''https://a.example/1'', ''https://a.example/2'']
   \<and> length (dispatched (fst (run example_world (Completes []) example_file_args))) = 2
   \<and> open_read example_world (os_path_abspath example_world ''missing.txt'') = FileNotFoundError
   \<and> snd (run example_world (Completes []) (example_file_args\<lparr>args_file := Some ''missing.txt''\<rparr>))
       = Exit 1
   \<and> open_read example_world (os_path_abspath example_world ''empty.txt'')
       = Content (''# nothing'' @ [CHR 0x0A])
   \<and> snd (run example_world (Completes []) (example_file_args\<lparr>args_file := Some ''empty.txt''\<rparr>))
       = Exit 1"
proof -
  have a1: "args_urls example_file_args = None"
    and a2: "args_file example_file_args = Some ''urls.txt''"
    by (simp_all add: example_file_args_def)
  have a3: "''urls.txt'' \<noteq> []"
    by simp
  have o: "open_read example_world (os_path_abspath example_world ''urls.txt'') = Content example_file"
    by (simp add: example_world_def)
  have n: "length (filter (\<lambda>l. \<not> list_all isspace l \<and> \<not> startswith_hash l) (file_lines example_file)) = 2"
    by code_simp
  have n1: "length (filter startswith_hash (file_lines example_file)) = 1"
    by code_simp
  have n2: "length (filter (list_all isspace) (file_lines example_file)) = 1"
    by code_simp
  have mk: "os_makedirs example_world (os_path_abspath example_world (args_output example_file_args)) = None"
    by (simp add: example_world_def)
  have p: "\<not> created_pool_fails (Completes [])"
    by (simp add: created_pool_fails_def)
  have u: "urls_of_lines (file_lines example_file) = [''https://a.example/1'', ''https://a.example/2'']"
    by code_simp
  note t = url_file_lines [OF a1 a2 a3, of example_world "Completes []"]
  have l: "snd (load_urls example_world example_file_args)
       = Some [''https://a.example/1'', ''https://a.example/2'']"
    using t o u by simp
  have d: "length (dispatched (fst (run example_world (Completes []) example_file_args))) = 2"
    using t o n mk p by blast
  have b1: "args_urls (example_file_args\<lparr>args_file := Some ''missing.txt''\<rparr>) = None"
    and b2: "args_file (example_file_args\<lparr>args_file := Some ''missing.txt''\<rparr>) = Some ''missing.txt''"
    and b3: "''missing.txt'' \<noteq> []"
    by (simp_all add: example_file_args_def)
  have om: "open_read example_world (os_path_abspath example_world ''missing.txt'') = FileNotFoundError"
    by (simp add: example_world_def)
  have m: "snd (run example_world (Completes []) (example_file_args\<lparr>args_file := Some ''missing.txt''\<rparr>))
       = Exit 1"
    using url_file_lines [OF b1 b2 b3, of example_world "Completes []"] om by blast
  have c1: "args_urls (example_file_args\<lparr>args_file := Some ''empty.txt''\<rparr>) = None"
    and c2: "args_file (example_file_args\<lparr>args_file := Some ''empty.txt''\<rparr>) = Some ''empty.txt''"
    and c3: "''empty.txt'' \<noteq> []"
    by (simp_all add: example_file_args_def)
  have oe: "open_read example_world (os_path_abspath example_world ''empty.txt'')
       = Content (''# nothing'' @ [CHR 0x0A])"
    by (simp add: example_world_def)
  have ne: "filter (\<lambda>l. \<not> list_all isspace l \<and> \<not> startswith_hash l)
              (file_lines (''# nothing'' @ [CHR 0x0A])) = []"
    by code_simp
  have e: "snd (run example_world (Completes []) (example_file_args\<lparr>args_file := Some ''empty.txt''\<rparr>))
       = Exit 1"
    using url_file_lines [OF c1 c2 c3, of example_world "Completes []"] oe ne by blast
  from a1 a2 a3 o n n1 n2 mk p l d om m oe e show ?thesis
    by blast
qed

text \<open>
  Claim C10. A line of the URL file that begins with white space and is not blank is
  not taken for a comment, whatever its first visible character: the test for \<^verbatim>\<open>#\<close>
  looks at the line as read. Its stripped form is one of the URLs of the batch, and
  begins with the first visible character of the line.
\<close>

theorem indented_hash_line_is_url:
  assumes "args_urls args = None" and "args_file args = Some f" and "f \<noteq> []"
    and "open_read w (os_path_abspath w f) = Content text"
    and "line \<in> set (file_lines text)"
    and "line = c # rest" and "isspace c" and "\<not> list_all isspace line"
  shows "\<not> startswith_hash line
       \<and> strip line \<in> set (urls_of_lines (file_lines text))
       \<and> snd (load_urls w args) = Some (urls_of_lines (file_lines text))
       \<and> hd (strip line) = hd (dropWhile isspace line)"
proof -
  have "c \<noteq> CHR ''#''"
    using assms(7) by (auto simp: isspace_def Let_def)
  then have h: "\<not> startswith_hash line"
    by (simp add: startswith_hash_def assms(6))
  have s: "strip line \<noteq> []" and hd: "hd (strip line) = hd (dropWhile isspace line)"
    using strip_first_char [OF assms(8)] by simp_all
  from h s assms(5) have m: "strip line \<in> set (urls_of_lines (file_lines text))"
    by (auto simp add: urls_of_lines_def)
  then have "urls_of_lines (file_lines text) \<noteq> []"
    by auto
  then have "snd (load_urls w args) = Some (urls_of_lines (file_lines text))"
    by (simp add: load_urls_file [OF assms(1-3)] assms(4))
  with h m hd show ?thesis
    by simp
qed

text \<open>An indented line whose first visible character is \<^verbatim>\<open>#\<close> becomes a URL.\<close>

theorem indented_hash_line_is_url_witness:
  "args_urls (example_file_args\<lparr>args_file := Some ''notes.txt''\<rparr>) = None
   \<and> args_file (example_file_args\<lparr>args_file := Some ''notes.txt''\<rparr>) = Some ''notes.txt''
   \<and> ''notes.txt'' \<noteq> []
   \<and> open_read example_world (os_path_abspath example_world ''notes.txt'') = Content indented_file
   \<and> ''  # not a comment'' @ [CHR 0x0A] \<in> set (file_lines indented_file)
   \<and> isspace CHR '' '' \<and> \<not> list_all isspace (''  # not a comment'' @ [CHR 0x0A])
   \<and> hd (dropWhile isspace (''  # not a comment'' @ [CHR 0x0A])) = CHR ''#''
   \<and> strip (''  # not a comment'' @ [CHR 0x0A]) = ''# not a comment''
   \<and> ''# not a comment'' \<in> set (urls_of_lines (file_lines indented_file))
   \<and> snd (load_urls example_world (example_file_args\<lparr>args_file := Some ''notes.txt''\<rparr>))
       = Some [''# not a comment'', ''https://a.example/3'']"
proof -
  let ?line = "''  # not a comment'' @ [CHR 0x0A]"
  have a1: "args_urls (example_file_args\<lparr>args_file := Some ''notes.txt''\<rparr>) = None"
    and a2: "args_file (example_file_args\<lparr>args_file := Some ''notes.txt''\<rparr>) = Some ''notes.txt''"
    and a3: "''notes.txt'' \<noteq> []"
    by (simp_all add: example_file_args_def)
  have o: "open_read example_world (os_path_abspath example_world ''notes.txt'') = Content indented_file"
    by (simp add: example_world_def)
  have m: "?line \<in> set (file_lines indented_file)"
    by code_simp
  have c: "?line = CHR '' '' # '' # not a comment'' @ [CHR 0x0A]"
    by simp
  have sp: "isspace CHR '' ''"
    by code_simp
  have nb: "\<not> list_all isspace ?line"
    by code_simp
  have h: "hd (dropWhile isspace ?line) = CHR ''#''"
    by code_simp
  have s: "strip ?line = ''# not a comment''"
    by code_simp
  have u: "urls_of_lines (file_lines indented_file) = [''# not a comment'', ''https://a.example/3'']"
    by code_simp
  note t = indented_hash_line_is_url [OF a1 a2 a3 o m c sp nb]
  from t have 1: "''# not a comment'' \<in> set (urls_of_lines (file_lines indented_file))"
    unfolding s by blast
  from t have 2: "snd (load_urls example_world (example_file_args\<lparr>args_file := Some ''notes.txt''\<rparr>))
       = Some [''# not a comment'', ''https://a.example/3'']"
    unfolding u by blast
  from a1 a2 a3 o m sp nb h s 1 2 show ?thesis
    by blast
qed

text \<open>
  Claim C7, as amended. Whenever the worker gets as far as its options dict, the dict
  has: the output template \<^verbatim>\<open>abspath(join(output_dir, "%(title)s [%(id)s].%(ext)s"))\<close>;
  a format selector of three alternatives separated by \<^verbatim>\<open>/\<close> (best mp4 video at or
  below the requested height with best m4a audio; best video at or below that height with
  best audio; best single stream at or below that height); the merge container
  \<^verbatim>\<open>mp4\<close>; certificate checking left on; and as identity string the one the generator
  yields for this call, or \<^verbatim>\<open>Mozilla/5.0\<close> when there is no generator. A request has
  no identity override.
\<close>

theorem options_bundle:
  assumes "build_options w url quality output_dir cookiefile quiet_ydl = Inr (user_agent, opts, ev)"
  shows "map_of opts ''outtmpl''
           = Some (Str (os_path_abspath w (os_path_join w output_dir ''%(title)s [%(id)s].%(ext)s'')))
       \<and> map_of opts ''format''
           = Some (Str (''bestvideo[height<='' @ quality @ ''][ext=mp4]+bestaudio[ext=m4a]''
                        @ ''/'' @ ''bestvideo[height<='' @ quality @ '']+bestaudio''
                        @ ''/'' @ ''best[height<='' @ quality @ '']''))
       \<and> map_of opts ''merge_output_format'' = Some (Str ''mp4'')
       \<and> map_of opts ''nocheckcertificate'' = Some (Bool False)
       \<and> identity_sent opts = Some user_agent
       \<and> (case ua w of None \<Rightarrow> user_agent = ''Mozilla/5.0'' | Some gen \<Rightarrow> gen url = Inr user_agent)"
proof -
  let ?opts0 = "make_ydl_opts w user_agent quality output_dir quiet_ydl"
  from build_options_Inr [OF assms]
  have u: "user_agent_of w url = Inr user_agent"
    and c: "add_cookiefile w url cookiefile ?opts0 = (opts, ev)"
    by simp_all
  note keep = add_cookiefile_keeps [OF c]
  have 1: "map_of opts ''outtmpl''
           = Some (Str (os_path_abspath w (os_path_join w output_dir ''%(title)s [%(id)s].%(ext)s'')))"
    by (rule keep) (simp add: make_ydl_opts_def output_template_of_def)
  have 2: "map_of opts ''format''
           = Some (Str (''bestvideo[height<='' @ quality @ ''][ext=mp4]+bestaudio[ext=m4a]''
                        @ ''/'' @ ''bestvideo[height<='' @ quality @ '']+bestaudio''
                        @ ''/'' @ ''best[height<='' @ quality @ '']''))"
    by (rule keep) (simp add: make_ydl_opts_def format_selector_def)
  have 3: "map_of opts ''merge_output_format'' = Some (Str ''mp4'')"
    by (rule keep) (simp add: make_ydl_opts_def)
  have 4: "map_of opts ''nocheckcertificate'' = Some (Bool False)"
    by (rule keep) (simp add: make_ydl_opts_def)
  have "map_of opts ''http_headers'' = Some (Dict [(''User-Agent'', Str user_agent)])"
    by (rule keep) (simp add: make_ydl_opts_def)
  then have 5: "identity_sent opts = Some user_agent"
    by (simp add: identity_sent_def)
  have 6: "case ua w of None \<Rightarrow> user_agent = ''Mozilla/5.0'' | Some gen \<Rightarrow> gen url = Inr user_agent"
    using u by (simp add: user_agent_of_def split: option.splits)
  from 1 2 3 4 5 6 show ?thesis
    by blast
qed

text \<open>The options for one request, with the generator and without it.\<close>

theorem options_bundle_witness:
  "build_options example_world ''a'' ''720'' ''out'' None False
     = Inr (''UA-1'', make_ydl_opts example_world ''UA-1'' ''720'' ''out'' False, [])
   \<and> map_of (make_ydl_opts example_world ''UA-1'' ''720'' ''out'' False) ''outtmpl''
       = Some (Str ''/work/out/%(title)s [%(id)s].%(ext)s'')
   \<and> map_of (make_ydl_opts example_world ''UA-1'' ''720'' ''out'' False) ''format''
       = Some (Str ''bestvideo[height<=720][ext=mp4]+bestaudio[ext=m4a]/bestvideo[height<=720]+bestaudio/best[height<=720]'')
   \<and> map_of (make_ydl_opts example_world ''UA-1'' ''720'' ''out'' False) ''merge_output_format''
       = Some (Str ''mp4'')
   \<and> map_of (make_ydl_opts example_world ''UA-1'' ''720'' ''out'' False) ''nocheckcertificate''
       = Some (Bool False)
   \<and> identity_sent (make_ydl_opts example_world ''UA-1'' ''720'' ''out'' False) = Some ''UA-1''
   \<and> ua example_world = Some (\<lambda>url. Inr ''UA-1'')
   \<and> build_options (example_world\<lparr>ua := None\<rparr>) ''a'' ''720'' ''out'' None False
       = Inr (''Mozilla/5.0'',
              make_ydl_opts (example_world\<lparr>ua := None\<rparr>) ''Mozilla/5.0'' ''720'' ''out'' False, [])
   \<and> identity_sent (make_ydl_opts (example_world\<lparr>ua := None\<rparr>) ''Mozilla/5.0'' ''720'' ''out'' False)
       = Some ''Mozilla/5.0''"
proof -
  have b: "build_options example_world ''a'' ''720'' ''out'' None False
     = Inr (''UA-1'', make_ydl_opts example_world ''UA-1'' ''720'' ''out'' False, [])"
    by (simp add: build_options_def user_agent_of_def add_cookiefile_def example_world_def)
  have p: "os_path_abspath example_world (os_path_join example_world ''out'' ''%(title)s [%(id)s].%(ext)s'')
             = ''/work/out/%(title)s [%(id)s].%(ext)s''"
    by (simp add: example_world_def)
  have g: "ua example_world = Some (\<lambda>url. Inr ''UA-1'')"
    by (simp add: example_world_def)
  have n: "build_options (example_world\<lparr>ua := None\<rparr>) ''a'' ''720'' ''out'' None False
       = Inr (''Mozilla/5.0'',
              make_ydl_opts (example_world\<lparr>ua := None\<rparr>) ''Mozilla/5.0'' ''720'' ''out'' False, [])"
    by (simp add: build_options_def user_agent_of_def add_cookiefile_def example_world_def)
  from options_bundle [OF b] options_bundle [OF n] b p g n show ?thesis
    by simp
qed

text \<open>
  Claim C7 as stated lets an override of the request decide the identity string. The
  tuple handed to the worker has no such component: for a request with the override
  \<^verbatim>\<open>Custom/1.0\<close> the dict carries the generated string.
\<close>

theorem options_bundle_counterexample:
  "req_identityOverride example_request = Some ''Custom/1.0''
   \<and> options_for example_world (args_of_request example_request)
       = Some (make_ydl_opts example_world ''UA-1'' ''720'' ''out'' False)
   \<and> identity_sent (make_ydl_opts example_world ''UA-1'' ''720'' ''out'' False) = Some ''UA-1''
   \<and> spec_identity (req_identityOverride example_request) (Some ''UA-1'') = ''Custom/1.0''
   \<and> ''UA-1'' \<noteq> spec_identity (req_identityOverride example_request) (Some ''UA-1'')"
  by code_simp

text \<open>
  Claim C8. Given that the default (the number of processors) is positive, the
  worker count handed on is the default when the configured count is at most 0 and the
  configured count otherwise; it is positive; and every pool of the run is built with it.
\<close>

theorem effective_worker_count:
  assumes "0 < cpu_count w"
  shows "snd (resolve_processes w p) = (if p \<le> 0 then cpu_count w else p)
       \<and> 0 < snd (resolve_processes w p)
       \<and> (\<forall>n. Pool n \<in> set (fst (run w pb args)) \<longrightarrow>
             n = (if args_processes args \<le> 0 then cpu_count w else args_processes args) \<and> 0 < n)"
proof -
  have 1: "snd (resolve_processes w q) = (if q \<le> 0 then cpu_count w else q)" for q
    by (simp add: resolve_processes_def)
  have 2: "0 < snd (resolve_processes w q)" for q
    using assms by (simp add: resolve_processes_def)
  have 3: "n = (if args_processes args \<le> 0 then cpu_count w else args_processes args) \<and> 0 < n"
    if "Pool n \<in> set (fst (run w pb args))" for n
    using pool_in_run [OF that] 1 [of "args_processes args"] 2 [of "args_processes args"]
    by simp
  from 1 2 3 show ?thesis
    by blast
qed

text \<open>Configured counts 0, -3 and 2 with four processors, and the pool of a run with count 0.\<close>

theorem effective_worker_count_witness:
  "0 < cpu_count example_world
   \<and> args_processes example_args = 0
   \<and> snd (resolve_processes example_world 0) = 4
   \<and> snd (resolve_processes example_world (- 3)) = 4
   \<and> snd (resolve_processes example_world 2) = 2
   \<and> Pool 4 \<in> set (fst (run example_world (Completes []) example_args))
   \<and> (4::int) = cpu_count example_world"
proof -
  have c: "0 < cpu_count example_world" and c4: "cpu_count example_world = 4"
    by (simp_all add: example_world_def)
  have a: "args_processes example_args = 0"
    by (simp add: example_args_def)
  have p: "Pool 4 \<in> set (fst (run example_world (Completes []) example_args))"
    by code_simp
  note t = effective_worker_count [OF c]
  have 1: "snd (resolve_processes example_world 0) = 4"
    using t [of 0 "Completes []" example_args] c4 by simp
  have 2: "snd (resolve_processes example_world (- 3)) = 4"
    using t [of "- 3" "Completes []" example_args] c4 by simp
  have 3: "snd (resolve_processes example_world 2) = 2"
    using t [of 2 "Completes []" example_args] by simp
  from c c4 a p 1 2 3 show ?thesis
    by simp
qed

text \<open>
  Claim C9. For a cookie file that is specified (a non-empty path): the worker puts it
  into the options dict exactly when the path exists, logs a warning and nothing else
  when it does not, and never fails because of it; and a run whose cookie file is missing
  logs a warning, does not exit, and hands every URL to the pool once the output
  directory is made and the pool is built.
\<close>

theorem missing_cookie_file_is_advisory:
  assumes "c \<noteq> []"
  shows "(\<forall>user_agent opts ev.
            build_options w url quality output_dir (Some c) quiet_ydl = Inr (user_agent, opts, ev) \<longrightarrow>
            map_of opts ''cookiefile'' = (if os_path_exists w c then Some (Str c) else None)
            \<and> (\<not> os_path_exists w c \<longrightarrow>
                 ev = [Log WARNING (''Cookie file specified but not found: '' @ c)]))
       \<and> (\<forall>e. build_options w url quality output_dir (Some c) quiet_ydl = Inl e \<longrightarrow>
            user_agent_of w url = Inl e)
       \<and> (\<forall>video_urls.
            args_cookiefile args = Some c \<and> \<not> os_path_exists w (os_path_abspath w c)
            \<and> snd (load_urls w args) = Some video_urls \<longrightarrow>
            Log WARNING (''Specified cookie file does not exist: '' @ os_path_abspath w c)
              \<in> set (fst (run w pb args))
            \<and> snd (run w pb args) \<noteq> Exit 1
            \<and> (os_makedirs w (os_path_abspath w (args_output args)) = None \<and> \<not> created_pool_fails pb \<longrightarrow>
                 dispatched (fst (run w pb args))
                   = map (\<lambda>url. (url, args_quality args, args_output args,
                                   Some (os_path_abspath w c), args_quiet_ydl args)) video_urls))"
proof -
  have 1: "map_of opts ''cookiefile'' = (if os_path_exists w c then Some (Str c) else None)
            \<and> (\<not> os_path_exists w c \<longrightarrow>
                 ev = [Log WARNING (''Cookie file specified but not found: '' @ c)])"
    if "build_options w url quality output_dir (Some c) quiet_ydl = Inr (user_agent, opts, ev)"
    for user_agent opts ev
    using build_options_Inr [OF that] assms
    by (auto simp add: add_cookiefile_def make_ydl_opts_def split: if_splits)
  have 2: "user_agent_of w url = Inl e"
    if "build_options w url quality output_dir (Some c) quiet_ydl = Inl e" for e
    using that by (auto simp add: build_options_def split: sum.splits prod.splits)
  have 3: "Log WARNING (''Specified cookie file does not exist: '' @ os_path_abspath w c)
              \<in> set (fst (run w pb args))
            \<and> snd (run w pb args) \<noteq> Exit 1
            \<and> (os_makedirs w (os_path_abspath w (args_output args)) = None \<and> \<not> created_pool_fails pb \<longrightarrow>
                 dispatched (fst (run w pb args))
                   = map (\<lambda>url. (url, args_quality args, args_output args,
                                   Some (os_path_abspath w c), args_quiet_ydl args)) video_urls)"
    if h: "args_cookiefile args = Some c \<and> \<not> os_path_exists w (os_path_abspath w c)
            \<and> snd (load_urls w args) = Some video_urls"
    for video_urls
  proof -
    from h have l: "snd (load_urls w args) = Some video_urls" and a: "args_cookiefile args = Some c"
      and m: "\<not> os_path_exists w (os_path_abspath w c)"
      by simp_all
    have r: "snd (resolve_cookie w (args_cookiefile args)) = Some (os_path_abspath w c)"
      using a assms by (simp add: resolve_cookie_def truthy_def str_opt_def Let_def)
    show ?thesis
      using cookie_warning_in_run [OF l a assms m, of pb] run_continues [OF l, of pb]
      by (simp add: dispatched_run l r)
  qed
  from 1 2 3 show ?thesis
    by blast
qed

text \<open>
  A run of two URLs with a missing cookie file, and the worker's options without and with
  the file in place.
\<close>

theorem missing_cookie_file_is_advisory_witness:
  "''cookies.txt'' \<noteq> [] \<and> ''/work/cookies.txt'' \<noteq> []
   \<and> args_cookiefile example_args = Some ''cookies.txt''
   \<and> \<not> os_path_exists example_world (os_path_abspath example_world ''cookies.txt'')
   \<and> snd (load_urls example_world example_args) = Some [''a'', ''bad'']
   \<and> os_makedirs example_world (os_path_abspath example_world (args_output example_args)) = None
   \<and> \<not> created_pool_fails (Completes [])
   \<and> Log WARNING ''Specified cookie file does not exist: /work/cookies.txt''
       \<in> set (fst (run example_world (Completes []) example_args))
   \<and> dispatched (fst (run example_world (Completes []) example_args))
       = [(''a'', ''720'', ''out'', Some ''/work/cookies.txt'', False),
          (''bad'', ''720'', ''out'', Some ''/work/cookies.txt'', False)]
   \<and> build_options example_world ''a'' ''720'' ''out'' (Some ''/work/cookies.txt'') False
       = Inr (''UA-1'', make_ydl_opts example_world ''UA-1'' ''720'' ''out'' False,
              [Log WARNING ''Cookie file specified but not found: /work/cookies.txt''])
   \<and> map_of (make_ydl_opts example_world ''UA-1'' ''720'' ''out'' False) ''cookiefile'' = None
   \<and> os_path_exists cookie_world ''/work/cookies.txt''
   \<and> build_options cookie_world ''a'' ''720'' ''out'' (Some ''/work/cookies.txt'') False
       = Inr (''UA-1'',
              make_ydl_opts cookie_world ''UA-1'' ''720'' ''out'' False
                @ [(''cookiefile'', Str ''/work/cookies.txt'')],
              [Log DEBUG ''Using cookie file: /work/cookies.txt for a''])
   \<and> map_of (make_ydl_opts cookie_world ''UA-1'' ''720'' ''out'' False
                @ [(''cookiefile'', Str ''/work/cookies.txt'')]) ''cookiefile''
       = Some (Str ''/work/cookies.txt'')"
proof -
  have n1: "''cookies.txt'' \<noteq> []" and n2: "''/work/cookies.txt'' \<noteq> []"
    by simp_all
  have a: "args_cookiefile example_args = Some ''cookies.txt''"
    by (simp add: example_args_def)
  have p: "os_path_abspath example_world ''cookies.txt'' = ''/work/cookies.txt''"
    by (simp add: example_world_def)
  have x: "\<not> os_path_exists example_world (os_path_abspath example_world ''cookies.txt'')"
    and x': "\<not> os_path_exists example_world ''/work/cookies.txt''"
    by (simp_all add: example_world_def)
  have l: "snd (load_urls example_world example_args) = Some [''a'', ''bad'']"
    by code_simp
  have mk: "os_makedirs example_world (os_path_abspath example_world (args_output example_args)) = None"
    by (simp add: example_world_def)
  have pf: "\<not> created_pool_fails (Completes [])"
    by (simp add: created_pool_fails_def)
  have e: "args_quality example_args = ''720''" "args_output example_args = ''out''"
    "args_quiet_ydl example_args = False"
    by (simp_all add: example_args_def)
  have b1: "build_options example_world ''a'' ''720'' ''out'' (Some ''/work/cookies.txt'') False
       = Inr (''UA-1'', make_ydl_opts example_world ''UA-1'' ''720'' ''out'' False,
              [Log WARNING ''Cookie file specified but not found: /work/cookies.txt''])"
    by (simp add: build_options_def user_agent_of_def add_cookiefile_def example_world_def)
  have y: "os_path_exists cookie_world ''/work/cookies.txt''"
    by (simp add: cookie_world_def)
  have b2: "build_options cookie_world ''a'' ''720'' ''out'' (Some ''/work/cookies.txt'') False
       = Inr (''UA-1'',
              make_ydl_opts cookie_world ''UA-1'' ''720'' ''out'' False
                @ [(''cookiefile'', Str ''/work/cookies.txt'')],
              [Log DEBUG ''Using cookie file: /work/cookies.txt for a''])"
    by (simp add: build_options_def user_agent_of_def add_cookiefile_def cookie_world_def
          example_world_def)
  note cli = missing_cookie_file_is_advisory [OF n1, of example_world _ _ _ _ example_args "Completes []"]
  have w: "Log WARNING ''Specified cookie file does not exist: /work/cookies.txt''
       \<in> set (fst (run example_world (Completes []) example_args))"
    using cli a x l unfolding p by (simp del: set_ConsD)
  have d: "dispatched (fst (run example_world (Completes []) example_args))
       = [(''a'', ''720'', ''out'', Some ''/work/cookies.txt'', False),
          (''bad'', ''720'', ''out'', Some ''/work/cookies.txt'', False)]"
    using cli a x l mk pf unfolding p e by simp
  have m1: "map_of (make_ydl_opts example_world ''UA-1'' ''720'' ''out'' False) ''cookiefile'' = None"
    using missing_cookie_file_is_advisory [OF n2, of example_world "''a''" "''720''" "''out''" False]
      b1 x'
    by simp
  have m2: "map_of (make_ydl_opts cookie_world ''UA-1'' ''720'' ''out'' False
                @ [(''cookiefile'', Str ''/work/cookies.txt'')]) ''cookiefile''
       = Some (Str ''/work/cookies.txt'')"
    using missing_cookie_file_is_advisory [OF n2, of cookie_world "''a''" "''720''" "''out''" False]
      b2 y
    by simp
  from n1 n2 a x l mk pf w d b1 m1 y b2 m2 show ?thesis
    by blast
qed

end
